theory Spec2Isabelle
  imports Main "HOL-Library.Char_ord" "HOL-Library.List_Lexorder"
begin

section \<open>Values, objects and rows\<close>

text \<open>
  The repository layer of \<^verbatim>\<open>useDataRepository.ts\<close> moves plain JavaScript objects
  between the caller, a SQL store and a remote service. An object is a finite map from
  property names to values; a property that is absent reads as \<^verbatim>\<open>undefined\<close>.
\<close>

datatype val = VUndef | VNull | VBool bool | VNum int | VStr string

type_synonym obj = "string \<rightharpoonup> val"

definition get :: "obj \<Rightarrow> string \<Rightarrow> val" where
  "get ob k = (case ob k of None \<Rightarrow> VUndef | Some v \<Rightarrow> v)"

text \<open>JavaScript truthiness, as used by \<^verbatim>\<open>||\<close>, \<^verbatim>\<open>?:\<close> and \<^verbatim>\<open>if\<close>.\<close>

fun truthy :: "val \<Rightarrow> bool" where
  "truthy VUndef = False"
| "truthy VNull = False"
| "truthy (VBool b) = b"
| "truthy (VNum n) = (n \<noteq> 0)"
| "truthy (VStr s) = (s \<noteq> [])"

text \<open>Decimal digits of a number, for values interpolated into template strings.\<close>

function show_nat :: "nat \<Rightarrow> string" where
  "show_nat n =
     (if n < 10 then [char_of (48 + n)]
      else show_nat (n div 10) @ [char_of (48 + n mod 10)])"
  by pat_completeness auto
termination
  by (relation "measure (\<lambda>n. n)") auto

definition show_int :: "int \<Rightarrow> string" where
  "show_int i = (if i < 0 then CHR ''-'' # show_nat (nat (- i)) else show_nat (nat i))"

fun js_string :: "val \<Rightarrow> string" where
  "js_string VUndef = ''undefined''"
| "js_string VNull = ''null''"
| "js_string (VBool b) = (if b then ''true'' else ''false'')"
| "js_string (VNum n) = show_int n"
| "js_string (VStr s) = s"

subsection \<open>What the SQL store does with a value\<close>

text \<open>
  SQLite has no boolean and no \<^verbatim>\<open>undefined\<close>: a bound \<^verbatim>\<open>true\<close>/\<^verbatim>\<open>false\<close> is stored
  as 1/0 and \<^verbatim>\<open>undefined\<close> as NULL. A column that a row never received reads as
  \<^verbatim>\<open>undefined\<close> here where SQLite would answer \<^verbatim>\<open>null\<close>; both are NULL for the
  predicates below and both are falsy.
\<close>

fun to_sql :: "val \<Rightarrow> val" where
  "to_sql VUndef = VNull"
| "to_sql (VBool b) = VNum (if b then 1 else 0)"
| "to_sql v = v"

definition sql_row :: "obj \<Rightarrow> obj" where
  "sql_row ob = (\<lambda>k. map_option to_sql (ob k))"

definition sql_null :: "val \<Rightarrow> bool" where
  "sql_null v = (to_sql v = VNull)"

text \<open>\<^verbatim>\<open>a = b\<close> in a WHERE clause: never true when a side is NULL.\<close>

definition sql_eq :: "val \<Rightarrow> val \<Rightarrow> bool" where
  "sql_eq a b = (\<not> sql_null a \<and> \<not> sql_null b \<and> to_sql a = to_sql b)"

text \<open>
  \<^verbatim>\<open>a > b\<close> in a WHERE clause: never true when a side is NULL, numbers by value, text
  byte by byte, and any number below any text.
\<close>

fun stored_gt :: "val \<Rightarrow> val \<Rightarrow> bool" where
  "stored_gt (VNum a) (VNum b) = (a > b)"
| "stored_gt (VStr a) (VStr b) = (a > b)"
| "stored_gt (VStr a) (VNum b) = True"
| "stored_gt a b = False"

definition sql_gt :: "val \<Rightarrow> val \<Rightarrow> bool" where
  "sql_gt a b = stored_gt (to_sql a) (to_sql b)"

text \<open>\<^verbatim>\<open>(is_deleted IS NULL OR is_deleted = 0)\<close>\<close>

definition not_deleted :: "obj \<Rightarrow> bool" where
  "not_deleted row = (sql_null (get row ''is_deleted'') \<or> sql_eq (get row ''is_deleted'') (VNum 0))"

section \<open>The world outside the repository\<close>

text \<open>
  The store is one database shared by all repositories: a list of rows per table name,
  in insertion order. Everything the code asks of its environment (the clock behind
  \<^verbatim>\<open>new Date()\<close>, \<^verbatim>\<open>crypto.randomUUID\<close>, whether the store rejects a statement, what
  \<^verbatim>\<open>fetch\<close> answers, how \<^verbatim>\<open>Date\<close> reads a value, \<^verbatim>\<open>JSON.stringify\<close>) is an oracle
  of the environment, asked with the number of the call: \<open>tick\<close> counts the calls
  made so far.
\<close>

record world =
  tables :: "string \<Rightarrow> obj list"
  tick :: nat

text \<open>
  What \<^verbatim>\<open>response.json()\<close> yields is not validated by the code, so the model keeps
  what the code can tell apart: a body that does not parse, \<^verbatim>\<open>null\<close>, an object,
  and an array whose entries are \<^verbatim>\<open>null\<close> (\<open>None\<close>) or objects. Every other JSON
  value behaves as one of these: the code only tests a value for truthiness, iterates it,
  reads its properties and spreads it, so a falsy scalar acts as \<^verbatim>\<open>null\<close>, and a
  truthy scalar or a nested array acts as the object of its own enumerable properties
  (none for a number or a boolean, the indices for a string or an array). Reading a
  property of \<^verbatim>\<open>null\<close> raises a TypeError.
\<close>

datatype payload = Unparsable | JNull | JObj obj | JArr "obj option list"

datatype response = NetworkFailure string | Response bool string payload

record request =
  http_method :: string
  url :: string
  authorization :: "string option"
  body :: "obj option"

record features_t =
  contentSync :: bool
  dynamicFeed :: bool
  notifications :: bool

record RemoteConfig =
  enabled :: bool
  baseUrl :: string
  apiKey :: "string option"
  syncInterval :: int
  features :: features_t

record env =
  clock :: "nat \<Rightarrow> string"
  uuid :: "nat \<Rightarrow> string"
  store_fault :: "nat \<Rightarrow> string option"
  fetch :: "nat \<Rightarrow> request \<Rightarrow> response"
  date_time :: "val \<Rightarrow> int option"
  json_stringify :: "RemoteConfig \<Rightarrow> string"

datatype error =
    NotFound val
  | StoreError string
  | RemoteDisabled
  | RemoteRequestFailed string string
  | TransportError string
  | NotIterable
  | NullProperty string

text \<open>\<^verbatim>\<open>`${error}`\<close>: what a caught error reads as inside a message.\<close>

fun error_string :: "error \<Rightarrow> string" where
  "error_string (NotFound i) = ''Error: Record with id '' @ js_string i @ '' not found''"
| "error_string (StoreError m) = m"
| "error_string RemoteDisabled = ''Error: Remote service not enabled''"
| "error_string (RemoteRequestFailed what st) = ''Error: Remote '' @ what @ '' failed: '' @ st"
| "error_string (TransportError m) = m"
| "error_string NotIterable = ''TypeError: remoteChanges is not iterable''"
| "error_string (NullProperty p) =
     ''TypeError: Cannot read properties of null (reading '' @ [CHR 0x27] @ p @ [CHR 0x27] @ '')''"

type_synonym 'a io = "world \<Rightarrow> (error + 'a) \<times> world"

definition advance :: "world \<Rightarrow> world" where
  "advance w = w\<lparr>tick := Suc (tick w)\<rparr>"

subsection \<open>The store\<close>

text \<open>
  \<^verbatim>\<open>db.select\<close> and \<^verbatim>\<open>db.execute\<close>. A statement the store rejects raises and
  changes nothing. \<open>db_execute_malformed\<close> is a statement that no store accepts.
\<close>

definition db_select :: "env \<Rightarrow> string \<Rightarrow> (obj \<Rightarrow> bool) \<Rightarrow> (obj list) io" where
  "db_select E t P w =
     (case store_fault E (tick w) of
        Some m \<Rightarrow> (Inl (StoreError m), advance w)
      | None \<Rightarrow> (Inr (filter P (tables w t)), advance w))"

definition db_execute_insert :: "env \<Rightarrow> string \<Rightarrow> obj \<Rightarrow> unit io" where
  "db_execute_insert E t row w =
     (case store_fault E (tick w) of
        Some m \<Rightarrow> (Inl (StoreError m), advance w)
      | None \<Rightarrow> (Inr (), advance (w\<lparr>tables := (tables w)(t := tables w t @ [sql_row row])\<rparr>)))"

definition db_execute_update :: "env \<Rightarrow> string \<Rightarrow> obj \<Rightarrow> (obj \<Rightarrow> bool) \<Rightarrow> unit io" where
  "db_execute_update E t assigns P w =
     (case store_fault E (tick w) of
        Some m \<Rightarrow> (Inl (StoreError m), advance w)
      | None \<Rightarrow>
          (Inr (), advance (w\<lparr>tables := (tables w)
             (t := map (\<lambda>row. if P row then row ++ sql_row assigns else row) (tables w t))\<rparr>)))"

definition db_execute_malformed :: "env \<Rightarrow> string \<Rightarrow> unit io" where
  "db_execute_malformed E m w =
     (case store_fault E (tick w) of
        Some m' \<Rightarrow> (Inl (StoreError m'), advance w)
      | None \<Rightarrow> (Inl (StoreError m), advance w))"

section \<open>BaseRepository\<close>

record repo =
  tableName :: string
  remoteConfig :: "RemoteConfig option"

definition generateId :: "env \<Rightarrow> world \<Rightarrow> string \<times> world" where
  "generateId E w = (uuid E (tick w), advance w)"

definition getCurrentTimestamp :: "env \<Rightarrow> world \<Rightarrow> string \<times> world" where
  "getCurrentTimestamp E w = (clock E (tick w), advance w)"

subsection \<open>Local operations\<close>

definition getLocal :: "env \<Rightarrow> repo \<Rightarrow> val \<Rightarrow> (obj option) io" where
  "getLocal E r i w =
     (case db_select E (tableName r) (\<lambda>row. sql_eq (get row ''id'') i \<and> not_deleted row) w of
        (Inl e, w1) \<Rightarrow> (Inl e, w1)
      | (Inr result, w1) \<Rightarrow> (Inr (case result of [] \<Rightarrow> None | x # _ \<Rightarrow> Some x), w1))"

definition deleteLocal :: "env \<Rightarrow> repo \<Rightarrow> val \<Rightarrow> unit io" where
  "deleteLocal E r i w =
     (let (now, w1) = getCurrentTimestamp E w
      in db_execute_update E (tableName r) [''is_deleted'' \<mapsto> VNum 1, ''updated_at'' \<mapsto> VStr now]
           (\<lambda>row. sql_eq (get row ''id'') i) w1)"

definition saveLocal :: "env \<Rightarrow> repo \<Rightarrow> obj \<Rightarrow> obj io" where
  "saveLocal E r data w =
     (let (i, w1) = (if truthy (get data ''id'') then (get data ''id'', w)
                     else (let (u, w') = generateId E w in (VStr u, w')));
          (now, w2) = getCurrentTimestamp E w1;
          entity = data(''id'' \<mapsto> i,
                        ''created_at'' \<mapsto> (if truthy (get data ''created_at'')
                                           then get data ''created_at'' else VStr now),
                        ''updated_at'' \<mapsto> VStr now,
                        ''is_deleted'' \<mapsto> VBool False)
      in case db_execute_insert E (tableName r) entity w2 of
           (Inl e, w3) \<Rightarrow> (Inl e, w3)
         | (Inr _, w3) \<Rightarrow> (Inr entity, w3))"

text \<open>
  \<^verbatim>\<open>updateLocal\<close> reads the clock twice: once for the entity it returns and once for
  the value it binds to \<^verbatim>\<open>updated_at\<close> in the statement. The SET clause lists the keys
  of \<^verbatim>\<open>data\<close> other than \<^verbatim>\<open>id\<close>, then \<^verbatim>\<open>updated_at\<close> (the rightmost assignment
  to a column wins); with no such key the statement reads \<^verbatim>\<open>SET , updated_at = ...\<close>,
  which is not SQL.
\<close>

definition updateLocal :: "env \<Rightarrow> repo \<Rightarrow> val \<Rightarrow> obj \<Rightarrow> obj io" where
  "updateLocal E r i data w =
     (case getLocal E r i w of
        (Inl e, w1) \<Rightarrow> (Inl e, w1)
      | (Inr None, w1) \<Rightarrow> (Inl (NotFound i), w1)
      | (Inr (Some existing), w1) \<Rightarrow>
          (let (now1, w2) = getCurrentTimestamp E w1;
               upd = (existing ++ data)(''id'' \<mapsto> i, ''updated_at'' \<mapsto> VStr now1);
               keys = dom data - {''id''};
               (now2, w3) = getCurrentTimestamp E w2
           in case (if keys = {} then db_execute_malformed E ''syntax error in SET clause'' w3
                    else db_execute_update E (tableName r) ((upd |` keys)(''updated_at'' \<mapsto> VStr now2))
                           (\<lambda>row. sql_eq (get row ''id'') i) w3) of
                (Inl e, w4) \<Rightarrow> (Inl e, w4)
              | (Inr _, w4) \<Rightarrow> (Inr upd, w4)))"

subsection \<open>Remote operations\<close>

definition getAuthHeaders :: "repo \<Rightarrow> string option" where
  "getAuthHeaders r =
     (case remoteConfig r of
        None \<Rightarrow> None
      | Some c \<Rightarrow> (case apiKey c of
                     None \<Rightarrow> None
                   | Some k \<Rightarrow> if k = [] then None else Some (''Bearer '' @ k)))"

definition call_fetch :: "env \<Rightarrow> request \<Rightarrow> world \<Rightarrow> response \<times> world" where
  "call_fetch E req w = (fetch E (tick w) req, advance w)"

definition saveRemote :: "env \<Rightarrow> repo \<Rightarrow> obj \<Rightarrow> payload io" where
  "saveRemote E r data w =
     (case remoteConfig r of
        None \<Rightarrow> (Inl RemoteDisabled, w)
      | Some c \<Rightarrow>
          if \<not> enabled c then (Inl RemoteDisabled, w)
          else (case call_fetch E \<lparr>http_method = ''POST'', url = baseUrl c @ ''/'' @ tableName r,
                                   authorization = getAuthHeaders r, body = Some data\<rparr> w of
                  (NetworkFailure m, w1) \<Rightarrow> (Inl (TransportError m), w1)
                | (Response ok st b, w1) \<Rightarrow>
                    if \<not> ok then (Inl (RemoteRequestFailed ''save'' st), w1)
                    else (case b of
                            Unparsable \<Rightarrow> (Inl (TransportError ''SyntaxError: invalid JSON''), w1)
                          | _ \<Rightarrow> (Inr b, w1))))"

definition updateRemote :: "env \<Rightarrow> repo \<Rightarrow> val \<Rightarrow> obj \<Rightarrow> payload io" where
  "updateRemote E r i data w =
     (case remoteConfig r of
        None \<Rightarrow> (Inl RemoteDisabled, w)
      | Some c \<Rightarrow>
          if \<not> enabled c then (Inl RemoteDisabled, w)
          else (case call_fetch E \<lparr>http_method = ''PUT'',
                                   url = baseUrl c @ ''/'' @ tableName r @ ''/'' @ js_string i,
                                   authorization = getAuthHeaders r, body = Some data\<rparr> w of
                  (NetworkFailure m, w1) \<Rightarrow> (Inl (TransportError m), w1)
                | (Response ok st b, w1) \<Rightarrow>
                    if \<not> ok then (Inl (RemoteRequestFailed ''update'' st), w1)
                    else (case b of
                            Unparsable \<Rightarrow> (Inl (TransportError ''SyntaxError: invalid JSON''), w1)
                          | _ \<Rightarrow> (Inr b, w1))))"

text \<open>
  \<^verbatim>\<open>listRemote()\<close> with its defaults (no filter, limit 50, offset 0): every failure
  is logged and answered with the empty list.
\<close>

definition listRemote :: "env \<Rightarrow> repo \<Rightarrow> world \<Rightarrow> payload \<times> world" where
  "listRemote E r w =
     (case remoteConfig r of
        None \<Rightarrow> (JArr [], w)
      | Some c \<Rightarrow>
          if \<not> enabled c then (JArr [], w)
          else (case call_fetch E \<lparr>http_method = ''GET'',
                                   url = baseUrl c @ ''/'' @ tableName r @ ''?limit=50&offset=0'',
                                   authorization = getAuthHeaders r, body = None\<rparr> w of
                  (NetworkFailure m, w1) \<Rightarrow> (JArr [], w1)
                | (Response ok st b, w1) \<Rightarrow>
                    if ok then (case b of Unparsable \<Rightarrow> (JArr [], w1) | _ \<Rightarrow> (b, w1))
                    else (JArr [], w1)))"

subsection \<open>Synchronisation\<close>

datatype conflict_kind = Update | Delete

record Conflict =
  id' :: val
  table :: string
  local_data :: obj
  remote_data :: obj
  conflict_type :: conflict_kind

record SyncResult =
  success :: bool
  conflicts :: "Conflict list"
  updated :: nat
  created :: nat
  deleted :: nat
  errors :: "string list"

definition getLocalChanges :: "env \<Rightarrow> repo \<Rightarrow> (obj list) io" where
  "getLocalChanges E r w =
     db_select E (tableName r)
       (\<lambda>row. sql_null (get row ''last_sync_at'')
              \<or> sql_gt (get row ''updated_at'') (get row ''last_sync_at'')) w"

text \<open>\<^verbatim>\<open>await this.listRemote?.() || []\<close>\<close>

definition getRemoteChanges :: "env \<Rightarrow> repo \<Rightarrow> world \<Rightarrow> payload \<times> world" where
  "getRemoteChanges E r w =
     (case listRemote E r w of
        (JNull, w1) \<Rightarrow> (JArr [], w1)
      | (b, w1) \<Rightarrow> (b, w1))"

definition findLocalByRemoteId :: "env \<Rightarrow> repo \<Rightarrow> val \<Rightarrow> (obj option) io" where
  "findLocalByRemoteId E r remoteId w =
     (case db_select E (tableName r) (\<lambda>row. sql_eq (get row ''remote_id'') remoteId) w of
        (Inl e, w1) \<Rightarrow> (Inl e, w1)
      | (Inr result, w1) \<Rightarrow> (Inr (case result of [] \<Rightarrow> None | x # _ \<Rightarrow> Some x), w1))"

text \<open>
  \<^verbatim>\<open>new Date(v).getTime()\<close> is a number of milliseconds or NaN (\<open>None\<close>). Every
  comparison with NaN is false, and NaN differs from everything.
\<close>

fun num_gt :: "int option \<Rightarrow> int option \<Rightarrow> bool" where
  "num_gt (Some a) (Some b) = (a > b)"
| "num_gt _ _ = False"

fun num_neq :: "int option \<Rightarrow> int option \<Rightarrow> bool" where
  "num_neq (Some a) (Some b) = (a \<noteq> b)"
| "num_neq _ _ = True"

definition hasConflict :: "env \<Rightarrow> obj \<Rightarrow> obj \<Rightarrow> bool" where
  "hasConflict E local remote =
     (let localTime = date_time E (get local ''updated_at'');
          remoteTime = date_time E (get remote ''updated_at'');
          syncTime = (if truthy (get local ''last_sync_at'')
                      then date_time E (get local ''last_sync_at'') else Some 0)
      in num_gt localTime syncTime \<and> num_gt remoteTime syncTime \<and> num_neq localTime remoteTime)"

text \<open>
  The result object is mutated in place, so what a step has counted before it raises
  stays counted: a step returns the world and the result also when it fails.
\<close>

type_synonym sync_state = "world \<times> SyncResult"

definition payload_truthy :: "payload \<Rightarrow> bool" where
  "payload_truthy b = (case b of JObj _ \<Rightarrow> True | JArr _ \<Rightarrow> True | _ \<Rightarrow> False)"

definition payload_get :: "payload \<Rightarrow> string \<Rightarrow> val" where
  "payload_get b k = (case b of JObj ob \<Rightarrow> get ob k | _ \<Rightarrow> VUndef)"

text \<open>The remote write of the push phase: the \<^verbatim>\<open>if (item.remote_id) ... else ...\<close>.\<close>

definition push_remote :: "env \<Rightarrow> repo \<Rightarrow> obj \<Rightarrow> sync_state \<Rightarrow> (error + unit) \<times> sync_state" where
  "push_remote E r item s =
     (case s of (w, res) \<Rightarrow>
        if truthy (get item ''remote_id'') then
          (case updateRemote E r (get item ''remote_id'') item w of
             (Inl e, w1) \<Rightarrow> (Inl e, w1, res)
           | (Inr _, w1) \<Rightarrow> (Inr (), w1, res\<lparr>updated := updated res + 1\<rparr>))
        else
          (case saveRemote E r item w of
             (Inl e, w1) \<Rightarrow> (Inl e, w1, res)
           | (Inr remoteItem, w1) \<Rightarrow>
               if payload_truthy remoteItem then
                 (case updateLocal E r (get item ''id'')
                         [''remote_id'' \<mapsto> payload_get remoteItem ''id''] w1 of
                    (Inl e, w2) \<Rightarrow> (Inl e, w2, res)
                  | (Inr _, w2) \<Rightarrow> (Inr (), w2, res\<lparr>created := created res + 1\<rparr>))
               else (Inr (), w1, res)))"

text \<open>The body of the \<^verbatim>\<open>try\<close> of one pushed record: the remote write, then the stamp.\<close>

definition push_try :: "env \<Rightarrow> repo \<Rightarrow> obj \<Rightarrow> sync_state \<Rightarrow> (error + unit) \<times> sync_state" where
  "push_try E r item s =
     (case push_remote E r item s of
        (Inl e, s1) \<Rightarrow> (Inl e, s1)
      | (Inr _, w1, res1) \<Rightarrow>
          (let (now, w2) = getCurrentTimestamp E w1
           in case updateLocal E r (get item ''id'') [''last_sync_at'' \<mapsto> VStr now] w2 of
                (Inl e, w3) \<Rightarrow> (Inl e, w3, res1)
              | (Inr _, w3) \<Rightarrow> (Inr (), w3, res1)))"

definition push_item :: "env \<Rightarrow> repo \<Rightarrow> obj \<Rightarrow> sync_state \<Rightarrow> sync_state" where
  "push_item E r item s =
     (case push_try E r item s of
        (Inl e, w1, res1) \<Rightarrow>
          (w1, res1\<lparr>errors := errors res1 @
                      [''Failed to sync item '' @ js_string (get item ''id'') @ '': ''
                         @ error_string e],
                    success := False\<rparr>)
      | (Inr _, s1) \<Rightarrow> s1)"

primrec push_loop :: "env \<Rightarrow> repo \<Rightarrow> obj list \<Rightarrow> sync_state \<Rightarrow> sync_state" where
  "push_loop E r [] s = s"
| "push_loop E r (item # localChanges) s = push_loop E r localChanges (push_item E r item s)"

text \<open>
  One entry of the remote listing. The \<^verbatim>\<open>try\<close> reads \<^verbatim>\<open>remoteItem.id\<close> first, and
  so does the message of the \<^verbatim>\<open>catch\<close>: for an entry that is \<^verbatim>\<open>null\<close> both raise,
  the second one out of the handler, before anything is appended to \<^verbatim>\<open>errors\<close>. That
  error ends the loop. (The rows of the push loop come from the store and are objects.)
\<close>

definition pull_try :: "env \<Rightarrow> repo \<Rightarrow> obj option \<Rightarrow> sync_state \<Rightarrow> (error + unit) \<times> sync_state" where
  "pull_try E r entry s =
     (case entry of
        None \<Rightarrow> (Inl (NullProperty ''id''), s)
      | Some remoteItem \<Rightarrow>
     (case s of (w, res) \<Rightarrow>
        (case findLocalByRemoteId E r (get remoteItem ''id'') w of
           (Inl e, w1) \<Rightarrow> (Inl e, w1, res)
         | (Inr (Some localItem), w1) \<Rightarrow>
             if hasConflict E localItem remoteItem then
               (Inr (), w1, res\<lparr>conflicts := conflicts res @
                    [\<lparr>id' = get localItem ''id'', table = tableName r, local_data = localItem,
                      remote_data = remoteItem, conflict_type = Update\<rparr>]\<rparr>)
             else
               (case updateLocal E r (get localItem ''id'') remoteItem w1 of
                  (Inl e, w2) \<Rightarrow> (Inl e, w2, res)
                | (Inr _, w2) \<Rightarrow> (Inr (), w2, res\<lparr>updated := updated res + 1\<rparr>))
         | (Inr None, w1) \<Rightarrow>
             (let (u, w2) = generateId E w1;
                  newLocal = remoteItem(''remote_id'' \<mapsto> get remoteItem ''id'', ''id'' \<mapsto> VStr u)
              in case saveLocal E r newLocal w2 of
                   (Inl e, w3) \<Rightarrow> (Inl e, w3, res)
                 | (Inr _, w3) \<Rightarrow> (Inr (), w3, res\<lparr>created := created res + 1\<rparr>)))))"

definition pull_item :: "env \<Rightarrow> repo \<Rightarrow> obj option \<Rightarrow> sync_state \<Rightarrow> (error + unit) \<times> sync_state" where
  "pull_item E r entry s =
     (case pull_try E r entry s of
        (Inl e, w1, res1) \<Rightarrow>
          (case entry of
             None \<Rightarrow> (Inl (NullProperty ''id''), w1, res1)
           | Some remoteItem \<Rightarrow>
               (Inr (), w1,
                res1\<lparr>errors := errors res1 @
                       [''Failed to merge remote item '' @ js_string (get remoteItem ''id'')
                          @ '': '' @ error_string e],
                     success := False\<rparr>))
      | (Inr _, s1) \<Rightarrow> (Inr (), s1))"

primrec pull_loop :: "env \<Rightarrow> repo \<Rightarrow> obj option list \<Rightarrow> sync_state \<Rightarrow> (error + unit) \<times> sync_state" where
  "pull_loop E r [] s = (Inr (), s)"
| "pull_loop E r (entry # remoteChanges) s =
     (case pull_item E r entry s of
        (Inl e, s1) \<Rightarrow> (Inl e, s1)
      | (Inr _, s1) \<Rightarrow> pull_loop E r remoteChanges s1)"

text \<open>
  The body of the outer \<^verbatim>\<open>try\<close>. Iterating over an answer of \<^verbatim>\<open>listRemote\<close> that
  is an object and not an array raises a TypeError there, and so does the handler of a
  pulled entry that is \<^verbatim>\<open>null\<close>.
\<close>

definition sync_try :: "env \<Rightarrow> repo \<Rightarrow> sync_state \<Rightarrow> (error + unit) \<times> sync_state" where
  "sync_try E r s =
     (case s of (w, res) \<Rightarrow>
        (case getLocalChanges E r w of
           (Inl e, w1) \<Rightarrow> (Inl e, w1, res)
         | (Inr localChanges, w1) \<Rightarrow>
             (let (w2, res2) = push_loop E r localChanges (w1, res);
                  (remoteChanges, w3) = getRemoteChanges E r w2
              in case remoteChanges of
                   JArr xs \<Rightarrow> pull_loop E r xs (w3, res2)
                 | _ \<Rightarrow> (Inl NotIterable, w3, res2))))"

definition not_enabled_result :: SyncResult where
  "not_enabled_result =
     \<lparr>success = False, conflicts = [], updated = 0, created = 0, deleted = 0,
      errors = [''Remote sync not enabled'']\<rparr>"

definition initial_result :: SyncResult where
  "initial_result =
     \<lparr>success = True, conflicts = [], updated = 0, created = 0, deleted = 0, errors = []\<rparr>"

definition syncWithRemote :: "env \<Rightarrow> repo \<Rightarrow> SyncResult io" where
  "syncWithRemote E r w =
     (case remoteConfig r of
        None \<Rightarrow> (Inr not_enabled_result, w)
      | Some c \<Rightarrow>
          if \<not> enabled c \<or> \<not> contentSync (features c) then (Inr not_enabled_result, w)
          else (case sync_try E r (w, initial_result) of
                  (Inl e, w1, res) \<Rightarrow>
                    (Inr (res\<lparr>success := False,
                              errors := errors res @ [''Sync failed: '' @ error_string e]\<rparr>), w1)
                | (Inr _, w1, res) \<Rightarrow> (Inr res, w1)))"

section \<open>DataManager\<close>

record DataManager =
  db :: "unit option"
  userRepo :: "repo option"
  todoRepo :: "repo option"
  remoteConfig' :: "RemoteConfig option"

definition setRemoteConfig_repo :: "RemoteConfig \<Rightarrow> repo \<Rightarrow> repo" where
  "setRemoteConfig_repo config r = r\<lparr>remoteConfig := Some config\<rparr>"

text \<open>\<^verbatim>\<open>INSERT OR REPLACE\<close> on a table whose column \<open>k\<close> is its key.\<close>

definition db_execute_upsert :: "env \<Rightarrow> string \<Rightarrow> string \<Rightarrow> obj \<Rightarrow> unit io" where
  "db_execute_upsert E t k row w =
     (case store_fault E (tick w) of
        Some m \<Rightarrow> (Inl (StoreError m), advance w)
      | None \<Rightarrow>
          (Inr (), advance (w\<lparr>tables := (tables w)
             (t := filter (\<lambda>x. \<not> sql_eq (get x k) (get row k)) (tables w t) @ [sql_row row])\<rparr>)))"

text \<open>A failure to persist the configuration is logged and swallowed.\<close>

definition saveRemoteConfig :: "env \<Rightarrow> DataManager \<Rightarrow> RemoteConfig \<Rightarrow> world \<Rightarrow> world" where
  "saveRemoteConfig E M config w =
     (case db M of
        None \<Rightarrow> w
      | Some _ \<Rightarrow>
          (let (now, w1) = getCurrentTimestamp E w
           in snd (db_execute_upsert E ''app_config'' ''key''
                     [''key'' \<mapsto> VStr ''remote_config'',
                      ''value'' \<mapsto> VStr (json_stringify E config),
                      ''updated_at'' \<mapsto> VStr now] w1)))"

definition setRemoteConfig :: "env \<Rightarrow> RemoteConfig \<Rightarrow> DataManager \<times> world \<Rightarrow> DataManager \<times> world" where
  "setRemoteConfig E config s =
     (case s of (M, w) \<Rightarrow>
        (let M1 = M\<lparr>remoteConfig' := Some config,
                    userRepo := map_option (setRemoteConfig_repo config) (userRepo M),
                    todoRepo := map_option (setRemoteConfig_repo config) (todoRepo M)\<rparr>
         in (M1, saveRemoteConfig E M1 config w)))"

text \<open>
  \<^verbatim>\<open>syncAll\<close>: the result map starts empty; inside the gate, the users repository
  is synchronised first and the todos repository after it, each if it exists.
\<close>

definition syncAll :: "env \<Rightarrow> DataManager \<Rightarrow> (string \<rightharpoonup> SyncResult) io" where
  "syncAll E M w =
     (case remoteConfig' M of
        None \<Rightarrow> (Inr Map.empty, w)
      | Some c \<Rightarrow>
          if enabled c \<and> contentSync (features c) then
            (case (case userRepo M of
                     None \<Rightarrow> (Inr Map.empty, w)
                   | Some ur \<Rightarrow>
                       (case syncWithRemote E ur w of
                          (Inl e, w1) \<Rightarrow> (Inl e, w1)
                        | (Inr res, w1) \<Rightarrow> (Inr [''users'' \<mapsto> res], w1))) of
               (Inl e, w1) \<Rightarrow> (Inl e, w1)
             | (Inr results, w1) \<Rightarrow>
                 (case todoRepo M of
                    None \<Rightarrow> (Inr results, w1)
                  | Some tr \<Rightarrow>
                      (case syncWithRemote E tr w1 of
                         (Inl e, w2) \<Rightarrow> (Inl e, w2)
                       | (Inr res, w2) \<Rightarrow> (Inr (results(''todos'' \<mapsto> res)), w2))))
          else (Inr Map.empty, w))"

section \<open>Vocabulary of the statements\<close>

text \<open>What \<^verbatim>\<open>deleteLocal(i)\<close> at time \<open>now\<close> makes of a row.\<close>

definition mark_deleted :: "val \<Rightarrow> string \<Rightarrow> obj \<Rightarrow> obj" where
  "mark_deleted i now row =
     (if sql_eq (get row ''id'') i
      then row(''is_deleted'' \<mapsto> VNum 1, ''updated_at'' \<mapsto> VStr now) else row)"

text \<open>The rows \<^verbatim>\<open>getLocal(i)\<close> selects: those with that id that are not soft-deleted.\<close>

definition live_rows :: "world \<Rightarrow> repo \<Rightarrow> val \<Rightarrow> obj list" where
  "live_rows w r i =
     filter (\<lambda>row. sql_eq (get row ''id'') i \<and> not_deleted row) (tables w (tableName r))"

text \<open>
  The assignments of the UPDATE that \<^verbatim>\<open>updateLocal(i, data)\<close> issues for the record
  \<open>existing\<close>, when the call starts at \<open>w\<close>: the merged values of the keys of
  \<^verbatim>\<open>data\<close> other than \<^verbatim>\<open>id\<close>, then \<^verbatim>\<open>updated_at\<close> from the second clock reading.
\<close>

definition update_assigns :: "env \<Rightarrow> world \<Rightarrow> val \<Rightarrow> obj \<Rightarrow> obj \<Rightarrow> obj" where
  "update_assigns E w i data existing =
     (((existing ++ data)(''id'' \<mapsto> i, ''updated_at'' \<mapsto> VStr (clock E (tick w + 1))))
         |` (dom data - {''id''}))(''updated_at'' \<mapsto> VStr (clock E (tick w + 2)))"

text \<open>
  What every result of a pass satisfies: \<^verbatim>\<open>success\<close> is false exactly when an error
  was recorded, nothing was counted as deleted, and every conflict is of type update.
\<close>

definition sound_result :: "SyncResult \<Rightarrow> bool" where
  "sound_result res =
     ((success res \<longleftrightarrow> errors res = []) \<and> deleted res = 0
      \<and> list_all (\<lambda>c. conflict_type c = Update) (conflicts res))"

subsection \<open>A concrete store, service and clock\<close>

definition iso_time :: "val \<Rightarrow> int option" where
  "iso_time v =
     (if v = VStr ''2024-05-01T10:00:00.000Z'' then Some 1714557600000
      else if v = VStr ''2024-05-01T10:01:00.000Z'' then Some 1714557660000
      else if v = VStr ''2024-05-01T10:03:00.000Z'' then Some 1714557780000
      else if v = VStr ''2024-05-01T10:05:00.000Z'' then Some 1714557900000
      else if v = VStr ''2024-05-01T10:07:00.000Z'' then Some 1714558020000
      else None)"

definition env0 :: env where
  "env0 =
     \<lparr>clock = (\<lambda>n. ''2024-05-01T10:07:00.000Z''),
      uuid = (\<lambda>n. ''6f1c2d3e-4a5b-4c6d-8e9f-000000000001''),
      store_fault = (\<lambda>n. None),
      fetch = (\<lambda>n req. if http_method req = ''GET'' then Response True ''OK'' (JArr [])
                       else Response False ''Service Unavailable'' JNull),
      date_time = iso_time,
      json_stringify = (\<lambda>c. ''{}'')\<rparr>"

definition config_on :: RemoteConfig where
  "config_on =
     \<lparr>enabled = True, baseUrl = ''https://api.example.org'', apiKey = Some ''k1'',
      syncInterval = 60,
      features = \<lparr>contentSync = True, dynamicFeed = False, notifications = False\<rparr>\<rparr>"

definition todos :: repo where
  "todos = \<lparr>tableName = ''todos'', remoteConfig = Some config_on\<rparr>"

text \<open>A record saved locally at 10:00 and never synchronised.\<close>

definition row_a1 :: obj where
  "row_a1 =
     [''id'' \<mapsto> VStr ''a1'', ''title'' \<mapsto> VStr ''X'',
      ''created_at'' \<mapsto> VStr ''2024-05-01T10:00:00.000Z'',
      ''updated_at'' \<mapsto> VStr ''2024-05-01T10:00:00.000Z'']"

definition world_a :: world where
  "world_a = \<lparr>tables = (\<lambda>t. if t = ''todos'' then [row_a1] else []), tick = 0\<rparr>"

text \<open>
  A record that was synchronised at 10:01 with the remote record \<^verbatim>\<open>r9\<close>, last changed
  locally at \<open>upd\<close>; the store holding given rows of todos; and the remote record as
  the service lists it, last changed there at \<open>upd\<close>.
\<close>

definition synced_row :: "string \<Rightarrow> obj" where
  "synced_row upd =
     [''id'' \<mapsto> VStr ''a1'', ''title'' \<mapsto> VStr ''X'',
      ''created_at'' \<mapsto> VStr ''2024-05-01T10:00:00.000Z'',
      ''updated_at'' \<mapsto> VStr upd,
      ''last_sync_at'' \<mapsto> VStr ''2024-05-01T10:01:00.000Z'',
      ''remote_id'' \<mapsto> VStr ''r9'']"

definition world_of :: "obj list \<Rightarrow> world" where
  "world_of rows = \<lparr>tables = (\<lambda>t. if t = ''todos'' then rows else []), tick = 0\<rparr>"

definition remote_r9 :: "string \<Rightarrow> obj" where
  "remote_r9 upd = [''id'' \<mapsto> VStr ''r9'', ''title'' \<mapsto> VStr ''Y'', ''updated_at'' \<mapsto> VStr upd]"

text \<open>A service that accepts every write and answers it with the record \<^verbatim>\<open>r9\<close>.\<close>

definition env_up :: env where
  "env_up =
     env0\<lparr>fetch := (\<lambda>n req. if http_method req = ''GET'' then Response True ''OK'' (JArr [])
                             else Response True ''OK'' (JObj [''id'' \<mapsto> VStr ''r9'']))\<rparr>"

text \<open>
  The synchronised record, soft-deleted at 10:03; the never synchronised record,
  soft-deleted; a service that refuses every write and lists the remote record \<^verbatim>\<open>r9\<close> as
  changed at 10:05; and a store that rejects every statement.
\<close>

definition deleted_row :: obj where
  "deleted_row = (synced_row ''2024-05-01T10:03:00.000Z'')(''is_deleted'' \<mapsto> VNum 1)"

definition deleted_new_row :: obj where
  "deleted_new_row = row_a1(''is_deleted'' \<mapsto> VNum 1)"

definition env_refusing :: env where
  "env_refusing =
     env0\<lparr>fetch := (\<lambda>n req. if http_method req = ''GET''
                             then Response True ''OK''
                                    (JArr [Some (remote_r9 ''2024-05-01T10:05:00.000Z'')])
                             else Response False ''Service Unavailable'' JNull)\<rparr>"

definition env_locked :: env where
  "env_locked = env0\<lparr>store_fault := (\<lambda>n. Some ''database is locked'')\<rparr>"

text \<open>A second record saved locally and never synchronised.\<close>

definition row_a2 :: obj where
  "row_a2 =
     [''id'' \<mapsto> VStr ''a2'', ''title'' \<mapsto> VStr ''W'',
      ''created_at'' \<mapsto> VStr ''2024-05-01T10:00:00.000Z'',
      ''updated_at'' \<mapsto> VStr ''2024-05-01T10:00:00.000Z'']"

text \<open>The manager after \<^verbatim>\<open>initialize\<close>, with both repositories and the remote enabled.\<close>

definition users :: repo where
  "users = \<lparr>tableName = ''users'', remoteConfig = Some config_on\<rparr>"

definition manager0 :: DataManager where
  "manager0 =
     \<lparr>db = Some (), userRepo = Some users, todoRepo = Some todos, remoteConfig' = Some config_on\<rparr>"

definition config_off :: RemoteConfig where
  "config_off = config_on\<lparr>enabled := False\<rparr>"


text \<open>
  The accepting service with a store that rejects its second call (the first call of a
  push is the remote write, the second the SELECT of the first write-back).
\<close>

definition env_fault1 :: env where
  "env_fault1 = env_up\<lparr>store_fault := (\<lambda>n. if n = 1 then Some ''database is locked'' else None)\<rparr>"


section \<open>Properties\<close>

subsection \<open>Auxiliary facts\<close>

lemma sql_row_empty [simp]: "sql_row Map.empty = Map.empty"
  by (simp add: sql_row_def)

lemma sql_row_upd [simp]: "sql_row (m(k \<mapsto> v)) = (sql_row m)(k \<mapsto> to_sql v)"
  by (auto simp: sql_row_def)

lemma get_upd [simp]: "get (m(k \<mapsto> v)) k' = (if k' = k then v else get m k')"
  by (simp add: get_def)

lemma get_empty [simp]: "get Map.empty k = VUndef"
  by (simp add: get_def)

lemma tick_advance [simp]: "tick (advance w) = Suc (tick w)"
  by (simp add: advance_def)

lemma tables_advance [simp]: "tables (advance w) = tables w"
  by (simp add: advance_def)

subsection \<open>deleteLocal\<close>

lemma deleteLocal_eq:
  "deleteLocal E r i w =
     (case store_fault E (Suc (tick w)) of
        Some m \<Rightarrow> (Inl (StoreError m), advance (advance w))
      | None \<Rightarrow> (Inr (), advance (advance (w\<lparr>tables := (tables w)
           (tableName r := map (mark_deleted i (clock E (tick w))) (tables w (tableName r)))\<rparr>))))"
  by (auto simp: deleteLocal_def getCurrentTimestamp_def db_execute_update_def advance_def
        mark_deleted_def [abs_def] split: option.splits cong: if_cong)

lemma mark_deleted_twice:
  "mark_deleted i t2 (mark_deleted i t1 row) = mark_deleted i t2 row"
  by (auto simp: mark_deleted_def)

lemma mark_deleted_flag:
  "get (mark_deleted i t2 row) ''is_deleted'' = get (mark_deleted i t1 row) ''is_deleted''"
  by (simp add: mark_deleted_def)

lemma mark_deleted_absent:
  "list_all (\<lambda>row. \<not> sql_eq (get row ''id'') i) rows \<Longrightarrow> map (mark_deleted i now) rows = rows"
  by (induction rows) (simp_all add: mark_deleted_def)

text \<open>
  C7. \<^verbatim>\<open>deleteLocal(id)\<close> sets \<^verbatim>\<open>is_deleted\<close> (to 1, SQLite's true) and stamps
  \<^verbatim>\<open>updated_at\<close> on the rows with that id, and it is idempotent. The only error a call
  can raise is the store's own, when it rejects the UPDATE (a call reads the clock and
  then executes its statement, so the statement of a call that starts at \<open>w\<close> is call
  number \<open>tick w + 1\<close>, and that of a second call right after it \<open>tick w + 3\<close>).
  When the store executes both statements, neither call raises, and after the second call
  the table is what one call would have made of it, but for the later time stamp; the
  \<^verbatim>\<open>is_deleted\<close> column is the same after one call and after two.
\<close>

theorem deleteLocal_idempotent:
  "(fst (deleteLocal E r i w) = Inr ()
      \<or> (\<exists>m. store_fault E (tick w + 1) = Some m
               \<and> fst (deleteLocal E r i w) = Inl (StoreError m)))
   \<and> (store_fault E (tick w + 1) = None \<longrightarrow> store_fault E (tick w + 3) = None \<longrightarrow>
        fst (deleteLocal E r i w) = Inr ()
        \<and> fst (deleteLocal E r i (snd (deleteLocal E r i w))) = Inr ()
        \<and> tables (snd (deleteLocal E r i w))
            = (tables w)(tableName r :=
                map (mark_deleted i (clock E (tick w))) (tables w (tableName r)))
        \<and> tables (snd (deleteLocal E r i (snd (deleteLocal E r i w))))
            = (tables w)(tableName r :=
                map (mark_deleted i (clock E (tick w + 2))) (tables w (tableName r)))
        \<and> map (\<lambda>row. get row ''is_deleted'')
              (tables (snd (deleteLocal E r i (snd (deleteLocal E r i w)))) (tableName r))
            = map (\<lambda>row. get row ''is_deleted'')
                (tables (snd (deleteLocal E r i w)) (tableName r)))"
proof (intro conjI impI)
  show "fst (deleteLocal E r i w) = Inr ()
      \<or> (\<exists>m. store_fault E (tick w + 1) = Some m
               \<and> fst (deleteLocal E r i w) = Inl (StoreError m))"
    by (simp add: deleteLocal_eq split: option.splits)
next
  assume "store_fault E (tick w + 1) = None" and "store_fault E (tick w + 3) = None"
  then have f: "store_fault E (Suc (tick w)) = None"
    "store_fault E (Suc (Suc (Suc (tick w)))) = None"
    by (simp_all add: eval_nat_numeral)
  then show "fst (deleteLocal E r i w) = Inr ()"
    and "fst (deleteLocal E r i (snd (deleteLocal E r i w))) = Inr ()"
    and "tables (snd (deleteLocal E r i w))
            = (tables w)(tableName r :=
                map (mark_deleted i (clock E (tick w))) (tables w (tableName r)))"
    and "tables (snd (deleteLocal E r i (snd (deleteLocal E r i w))))
            = (tables w)(tableName r :=
                map (mark_deleted i (clock E (tick w + 2))) (tables w (tableName r)))"
    and "map (\<lambda>row. get row ''is_deleted'')
              (tables (snd (deleteLocal E r i (snd (deleteLocal E r i w)))) (tableName r))
            = map (\<lambda>row. get row ''is_deleted'')
                (tables (snd (deleteLocal E r i w)) (tableName r))"
    by (simp_all add: deleteLocal_eq mark_deleted_twice eval_nat_numeral comp_def
          mark_deleted_flag [of i "clock E (Suc (Suc (tick w)))" _ "clock E (tick w)"])
qed

theorem deleteLocal_idempotent_witness:
  "fst (deleteLocal env0 todos (VStr ''a1'') world_a) = Inr ()
   \<and> fst (deleteLocal env0 todos (VStr ''a1'')
            (snd (deleteLocal env0 todos (VStr ''a1'') world_a))) = Inr ()
   \<and> tables (snd (deleteLocal env0 todos (VStr ''a1'')
            (snd (deleteLocal env0 todos (VStr ''a1'') world_a)))) ''todos''
       = [row_a1(''is_deleted'' \<mapsto> VNum 1, ''updated_at'' \<mapsto> VStr ''2024-05-01T10:07:00.000Z'')]"
  using deleteLocal_idempotent [where E = env0 and w = world_a and r = todos and i = "VStr ''a1''"]
  by (simp add: env0_def world_a_def todos_def row_a1_def mark_deleted_def sql_eq_def sql_null_def)

text \<open>
  C10. \<^verbatim>\<open>deleteLocal\<close> has no existence check: it never raises NotFound, whatever
  the id; and for an id that no row of the table has, it changes no row, and completes
  without error when the store executes the statement (call number \<open>tick w + 1\<close>,
  after the clock reading).
\<close>

theorem deleteLocal_unknown_id:
  "fst (deleteLocal E r i w) \<noteq> Inl (NotFound j)
   \<and> (list_all (\<lambda>row. \<not> sql_eq (get row ''id'') i) (tables w (tableName r)) \<longrightarrow>
        tables (snd (deleteLocal E r i w)) = tables w
        \<and> (store_fault E (tick w + 1) = None \<longrightarrow> fst (deleteLocal E r i w) = Inr ()))"
  by (auto simp: deleteLocal_eq mark_deleted_absent split: option.splits)

theorem deleteLocal_unknown_id_witness:
  "fst (deleteLocal env0 todos (VStr ''zz'') world_a) \<noteq> Inl (NotFound (VStr ''zz''))
   \<and> list_all (\<lambda>row. \<not> sql_eq (get row ''id'') (VStr ''zz'')) (tables world_a (tableName todos))
   \<and> tables (snd (deleteLocal env0 todos (VStr ''zz'') world_a)) = tables world_a
   \<and> store_fault env0 (tick world_a + 1) = None
   \<and> fst (deleteLocal env0 todos (VStr ''zz'') world_a) = Inr ()"
proof -
  have h: "list_all (\<lambda>row. \<not> sql_eq (get row ''id'') (VStr ''zz''))
             (tables world_a (tableName todos))"
    by (simp add: world_a_def todos_def row_a1_def sql_eq_def sql_null_def)
  have f: "store_fault env0 (tick world_a + 1) = None"
    by (simp add: env0_def)
  from h f deleteLocal_unknown_id [of env0 todos "VStr ''zz''" world_a "VStr ''zz''"]
  show ?thesis by simp
qed

subsection \<open>The concrete store, service and clock\<close>

lemma env0_simps [simp]:
  "clock env0 n = ''2024-05-01T10:07:00.000Z''"
  "uuid env0 n = ''6f1c2d3e-4a5b-4c6d-8e9f-000000000001''"
  "store_fault env0 n = None"
  "date_time env0 = iso_time"
  by (simp_all add: env0_def)

lemma todos_simps [simp]:
  "tableName todos = ''todos''"
  "remoteConfig todos = Some config_on"
  by (simp_all add: todos_def)

lemma config_on_simps [simp]:
  "enabled config_on"
  "contentSync (features config_on)"
  "baseUrl config_on = ''https://api.example.org''"
  "apiKey config_on = Some ''k1''"
  by (simp_all add: config_on_def)

lemma world_a_simps [simp]:
  "tables world_a ''todos'' = [row_a1]"
  "tick world_a = 0"
  by (simp_all add: world_a_def)

lemma row_a1_simps [simp]:
  "get row_a1 ''id'' = VStr ''a1''"
  "get row_a1 ''is_deleted'' = VUndef"
  "get row_a1 ''remote_id'' = VUndef"
  "get row_a1 ''last_sync_at'' = VUndef"
  "get row_a1 ''updated_at'' = VStr ''2024-05-01T10:00:00.000Z''"
  by (simp_all add: row_a1_def)

lemma sql_eq_str [simp]: "sql_eq (VStr a) (VStr b) = (a = b)"
  by (simp add: sql_eq_def sql_null_def)

lemma sql_eq_undef [simp]: "sql_eq VUndef v = False" "sql_eq v VUndef = False"
  "sql_eq VNull v = False" "sql_eq v VNull = False"
  by (simp_all add: sql_eq_def sql_null_def)

lemma sql_null_simps [simp]:
  "sql_null VUndef" "sql_null VNull" "\<not> sql_null (VStr s)" "\<not> sql_null (VNum n)"
  "\<not> sql_null (VBool b)"
  by (simp_all add: sql_null_def)

subsection \<open>getLocal and updateLocal\<close>

lemma getLocal_eq:
  "getLocal E r i w =
     (case store_fault E (tick w) of
        Some m \<Rightarrow> (Inl (StoreError m), advance w)
      | None \<Rightarrow> (Inr (case live_rows w r i of [] \<Rightarrow> None | x # _ \<Rightarrow> Some x), advance w))"
  by (simp add: getLocal_def db_select_def live_rows_def split: option.splits)

lemma updateLocal_eq:
  "updateLocal E r i data w =
     (case store_fault E (tick w) of
        Some m \<Rightarrow> (Inl (StoreError m), advance w)
      | None \<Rightarrow>
         (case live_rows w r i of
            [] \<Rightarrow> (Inl (NotFound i), advance w)
          | existing # _ \<Rightarrow>
              (case store_fault E (tick w + 3) of
                 Some m \<Rightarrow> (Inl (StoreError m), w\<lparr>tick := tick w + 4\<rparr>)
               | None \<Rightarrow>
                   if dom data - {''id''} = {}
                   then (Inl (StoreError ''syntax error in SET clause''), w\<lparr>tick := tick w + 4\<rparr>)
                   else (Inr ((existing ++ data)(''id'' \<mapsto> i,
                                 ''updated_at'' \<mapsto> VStr (clock E (tick w + 1)))),
                         w\<lparr>tables := (tables w)(tableName r :=
                              map (\<lambda>row. if sql_eq (get row ''id'') i
                                         then row ++ sql_row (update_assigns E w i data existing)
                                         else row) (tables w (tableName r))),
                           tick := tick w + 4\<rparr>))))"
  by (simp add: updateLocal_def getLocal_eq getCurrentTimestamp_def db_execute_update_def
        db_execute_malformed_def advance_def update_assigns_def eval_nat_numeral Let_def
      split: option.splits list.splits del: restrict_fun_upd cong: if_cong)

lemma get_add: "get (row ++ m) k = (case m k of None \<Rightarrow> get row k | Some v \<Rightarrow> v)"
  by (simp add: get_def map_add_def split: option.splits)

lemma update_assigns_id [simp]: "update_assigns E w i data existing ''id'' = None"
  by (simp add: update_assigns_def restrict_map_def)

lemma update_assigns_updated_at [simp]:
  "update_assigns E w i data existing ''updated_at'' = Some (VStr (clock E (tick w + 2)))"
  by (simp add: update_assigns_def)

lemma update_assigns_key:
  "data k = Some v \<Longrightarrow> k \<noteq> ''id'' \<Longrightarrow> k \<noteq> ''updated_at'' \<Longrightarrow>
     update_assigns E w i data existing k = Some v"
  by (auto simp: update_assigns_def restrict_map_def map_add_def)

lemma update_assigns_single:
  "k \<noteq> ''id'' \<Longrightarrow> k \<noteq> ''updated_at'' \<Longrightarrow>
     update_assigns E w i [k \<mapsto> v] existing
       = [k \<mapsto> v, ''updated_at'' \<mapsto> VStr (clock E (tick w + 2))]"
  by (rule ext) (simp add: update_assigns_def restrict_map_def)


lemma updated_rows_key:
  assumes "a ''id'' = None" and "a k = Some v"
  shows "list_all (\<lambda>row. sql_eq (get row ''id'') i \<longrightarrow> get row k = to_sql v)
           (map (\<lambda>row. if sql_eq (get row ''id'') i then row ++ sql_row a else row) rows)"
  using assms by (induction rows) (simp_all add: get_add sql_row_def)




subsection \<open>saveLocal\<close>





subsection \<open>What leaves the store alone\<close>

lemma updateLocal_failure:
  "updateLocal E r i data w = (Inl e, w') \<Longrightarrow> tables w' = tables w"
  by (auto simp: updateLocal_eq split: option.splits list.splits if_splits)

lemma updateLocal_success:
  assumes "updateLocal E r i data w = (Inr upd, w')"
  shows "\<exists>existing rest. live_rows w r i = existing # rest
           \<and> upd = (existing ++ data)(''id'' \<mapsto> i,
                        ''updated_at'' \<mapsto> VStr (clock E (tick w + 1)))
           \<and> tables w' = (tables w)(tableName r :=
                 map (\<lambda>row. if sql_eq (get row ''id'') i
                            then row ++ sql_row (update_assigns E w i data existing) else row)
                   (tables w (tableName r)))"
  using assms by (auto simp: updateLocal_eq split: option.splits list.splits if_splits)

lemma updateLocal_applies:
  assumes "updateLocal E r i data w = (Inr upd, w')"
    and "data k = Some v" and "k \<noteq> ''id''" and "k \<noteq> ''updated_at''"
  shows "list_all (\<lambda>row. sql_eq (get row ''id'') i \<longrightarrow> get row k = to_sql v)
           (tables w' (tableName r))"
proof -
  from updateLocal_success [OF assms(1)] obtain existing where
    "tables w' = (tables w)(tableName r :=
           map (\<lambda>row. if sql_eq (get row ''id'') i
                      then row ++ sql_row (update_assigns E w i data existing) else row)
             (tables w (tableName r)))"
    by blast
  then have w': "tables w' (tableName r) =
           map (\<lambda>row. if sql_eq (get row ''id'') i
                      then row ++ sql_row (update_assigns E w i data existing) else row)
             (tables w (tableName r))"
    by simp
  from assms(2-4) have "update_assigns E w i data existing k = Some v"
    by (rule update_assigns_key)
  then show ?thesis
    unfolding w' by (intro updated_rows_key) simp_all
qed


lemma findLocalByRemoteId_eq:
  "findLocalByRemoteId E r remoteId w =
     (case store_fault E (tick w) of
        Some m \<Rightarrow> (Inl (StoreError m), advance w)
      | None \<Rightarrow>
          (Inr (case filter (\<lambda>row. sql_eq (get row ''remote_id'') remoteId)
                       (tables w (tableName r)) of
                  [] \<Rightarrow> None | x # _ \<Rightarrow> Some x), advance w))"
  by (simp add: findLocalByRemoteId_def db_select_def split: option.splits)

lemma findLocalByRemoteId_tables:
  "findLocalByRemoteId E r remoteId w = (res, w1) \<Longrightarrow> tables w1 = tables w"
  by (auto simp: findLocalByRemoteId_eq split: option.splits)

subsection \<open>The pull phase\<close>


lemma synced_row_simps [simp]:
  "get (synced_row u) ''id'' = VStr ''a1''"
  "get (synced_row u) ''remote_id'' = VStr ''r9''"
  "get (synced_row u) ''updated_at'' = VStr u"
  "get (synced_row u) ''last_sync_at'' = VStr ''2024-05-01T10:01:00.000Z''"
  "get (synced_row u) ''is_deleted'' = VUndef"
  by (simp_all add: synced_row_def)

lemma remote_r9_simps [simp]:
  "get (remote_r9 u) ''id'' = VStr ''r9''"
  "get (remote_r9 u) ''updated_at'' = VStr u"
  "remote_r9 u ''title'' = Some (VStr ''Y'')"
  "dom (remote_r9 u) - {''id''} = {''title'', ''updated_at''}"
  by (auto simp: remote_r9_def)

lemma world_of_simps [simp]:
  "tables (world_of rows) ''todos'' = rows"
  "tick (world_of rows) = 0"
  by (simp_all add: world_of_def)

lemma iso_time_simps [simp]:
  "iso_time (VStr ''2024-05-01T10:00:00.000Z'') = Some 1714557600000"
  "iso_time (VStr ''2024-05-01T10:01:00.000Z'') = Some 1714557660000"
  "iso_time (VStr ''2024-05-01T10:03:00.000Z'') = Some 1714557780000"
  "iso_time (VStr ''2024-05-01T10:05:00.000Z'') = Some 1714557900000"
  by (simp_all add: iso_time_def)




subsection \<open>The push phase\<close>

lemma updateRemote_tables:
  "updateRemote E r i data w = (out, w1) \<Longrightarrow> tables w1 = tables w"
  by (auto simp: updateRemote_def call_fetch_def
        split: option.splits if_splits prod.splits response.splits payload.splits)

lemma saveRemote_tables:
  "saveRemote E r data w = (out, w1) \<Longrightarrow> tables w1 = tables w"
  by (auto simp: saveRemote_def call_fetch_def
        split: option.splits if_splits prod.splits response.splits payload.splits)

lemma push_remote_failure:
  assumes "push_remote E r item (w, res) = (Inl e, w1, res1)"
  shows "tables w1 = tables w \<and> res1 = res"
proof (cases "truthy (get item ''remote_id'')")
  case True
  with assms show ?thesis
    by (auto simp: push_remote_def split: prod.splits sum.splits dest: updateRemote_tables)
next
  case False
  with assms show ?thesis
    by (auto simp: push_remote_def split: prod.splits sum.splits if_splits
          dest!: saveRemote_tables updateLocal_failure)
qed

text \<open>
  C2, as the code has it. The stamp of \<^verbatim>\<open>last_sync_at\<close> stands after the remote write
  inside the same \<^verbatim>\<open>try\<close>. When the remote write step of a dirty record raises (the
  remote update, the remote create, or the write-back of the \<^verbatim>\<open>remote_id\<close> after a
  create), the record's error is recorded, \<^verbatim>\<open>success\<close> becomes false, the counters
  stay and the store is left as it was: the record is not stamped. When the remote write
  step returns normally, \<^verbatim>\<open>updateLocal\<close> is called with the clock's reading as
  \<^verbatim>\<open>last_sync_at\<close>: if it succeeds, every row with the record's id carries that
  reading; if it raises, the error is recorded and the store is as the remote write step
  left it.
\<close>

theorem push_stamp:
  "(truthy (get item ''remote_id'') \<longrightarrow>
      updateRemote E r (get item ''remote_id'') item w = (Inl e, w1) \<longrightarrow>
        push_item E r item (w, res)
          = (w1, res\<lparr>errors := errors res @
                 [''Failed to sync item '' @ js_string (get item ''id'') @ '': ''
                    @ error_string e],
               success := False\<rparr>)
        \<and> tables w1 = tables w)
   \<and> (\<not> truthy (get item ''remote_id'') \<longrightarrow>
      saveRemote E r item w = (Inl e, w1) \<longrightarrow>
        push_item E r item (w, res)
          = (w1, res\<lparr>errors := errors res @
                 [''Failed to sync item '' @ js_string (get item ''id'') @ '': ''
                    @ error_string e],
               success := False\<rparr>)
        \<and> tables w1 = tables w)
   \<and> (\<not> truthy (get item ''remote_id'') \<longrightarrow>
      saveRemote E r item w = (Inr remoteItem, wa) \<longrightarrow> payload_truthy remoteItem \<longrightarrow>
      updateLocal E r (get item ''id'') [''remote_id'' \<mapsto> payload_get remoteItem ''id''] wa
        = (Inl e, w1) \<longrightarrow>
        push_item E r item (w, res)
          = (w1, res\<lparr>errors := errors res @
                 [''Failed to sync item '' @ js_string (get item ''id'') @ '': ''
                    @ error_string e],
               success := False\<rparr>)
        \<and> tables w1 = tables w)
   \<and> (push_remote E r item (w, res) = (Inl e, w1, res1) \<longrightarrow>
        push_item E r item (w, res)
          = (w1, res\<lparr>errors := errors res @
                 [''Failed to sync item '' @ js_string (get item ''id'') @ '': ''
                    @ error_string e],
               success := False\<rparr>)
        \<and> tables w1 = tables w)
   \<and> (push_remote E r item (w, res) = (Inr (), w1, res1) \<longrightarrow>
        (case updateLocal E r (get item ''id'')
                [''last_sync_at'' \<mapsto> VStr (clock E (tick w1))] (advance w1) of
           (Inr upd, w2) \<Rightarrow>
             push_item E r item (w, res) = (w2, res1)
             \<and> list_all (\<lambda>row. sql_eq (get row ''id'') (get item ''id'') \<longrightarrow>
                           get row ''last_sync_at'' = VStr (clock E (tick w1)))
                  (tables w2 (tableName r))
         | (Inl e', w2) \<Rightarrow>
             push_item E r item (w, res)
               = (w2, res1\<lparr>errors := errors res1 @
                      [''Failed to sync item '' @ js_string (get item ''id'') @ '': ''
                         @ error_string e'],
                    success := False\<rparr>)
             \<and> tables w2 = tables w1))"
proof (intro conjI impI)
  assume "truthy (get item ''remote_id'')"
    and "updateRemote E r (get item ''remote_id'') item w = (Inl e, w1)"
  then show "push_item E r item (w, res)
          = (w1, res\<lparr>errors := errors res @
                 [''Failed to sync item '' @ js_string (get item ''id'') @ '': ''
                    @ error_string e],
               success := False\<rparr>)"
    and "tables w1 = tables w"
    by (simp_all add: push_item_def push_try_def push_remote_def updateRemote_tables)
next
  assume "\<not> truthy (get item ''remote_id'')"
    and "saveRemote E r item w = (Inl e, w1)"
  then show "push_item E r item (w, res)
          = (w1, res\<lparr>errors := errors res @
                 [''Failed to sync item '' @ js_string (get item ''id'') @ '': ''
                    @ error_string e],
               success := False\<rparr>)"
    and "tables w1 = tables w"
    by (simp_all add: push_item_def push_try_def push_remote_def saveRemote_tables)
next
  assume a: "\<not> truthy (get item ''remote_id'')" "saveRemote E r item w = (Inr remoteItem, wa)"
    "payload_truthy remoteItem"
    "updateLocal E r (get item ''id'') [''remote_id'' \<mapsto> payload_get remoteItem ''id''] wa
       = (Inl e, w1)"
  then show "push_item E r item (w, res)
          = (w1, res\<lparr>errors := errors res @
                 [''Failed to sync item '' @ js_string (get item ''id'') @ '': ''
                    @ error_string e],
               success := False\<rparr>)"
    by (simp add: push_item_def push_try_def push_remote_def)
  from a(2) have "tables wa = tables w"
    by (rule saveRemote_tables)
  with updateLocal_failure [OF a(4)] show "tables w1 = tables w"
    by simp
next
  assume f: "push_remote E r item (w, res) = (Inl e, w1, res1)"
  from push_remote_failure [OF f] f
  show "push_item E r item (w, res)
          = (w1, res\<lparr>errors := errors res @
                 [''Failed to sync item '' @ js_string (get item ''id'') @ '': ''
                    @ error_string e],
               success := False\<rparr>)"
    and "tables w1 = tables w"
    by (simp_all add: push_item_def push_try_def)
next
  assume ok: "push_remote E r item (w, res) = (Inr (), w1, res1)"
  show "case updateLocal E r (get item ''id'')
                [''last_sync_at'' \<mapsto> VStr (clock E (tick w1))] (advance w1) of
           (Inr upd, w2) \<Rightarrow>
             push_item E r item (w, res) = (w2, res1)
             \<and> list_all (\<lambda>row. sql_eq (get row ''id'') (get item ''id'') \<longrightarrow>
                           get row ''last_sync_at'' = VStr (clock E (tick w1)))
                  (tables w2 (tableName r))
         | (Inl e', w2) \<Rightarrow>
             push_item E r item (w, res)
               = (w2, res1\<lparr>errors := errors res1 @
                      [''Failed to sync item '' @ js_string (get item ''id'') @ '': ''
                         @ error_string e'],
                    success := False\<rparr>)
             \<and> tables w2 = tables w1"
  proof (cases "updateLocal E r (get item ''id'')
                  [''last_sync_at'' \<mapsto> VStr (clock E (tick w1))] (advance w1)")
    case (Pair out w2)
    show ?thesis
    proof (cases out)
      case (Inl e')
      with Pair ok updateLocal_failure [of E r _ _ "advance w1" e' w2] show ?thesis
        by (simp add: push_item_def push_try_def getCurrentTimestamp_def)
    next
      case (Inr upd)
      with Pair have "list_all (\<lambda>row. sql_eq (get row ''id'') (get item ''id'') \<longrightarrow>
                           get row ''last_sync_at'' = to_sql (VStr (clock E (tick w1))))
                  (tables w2 (tableName r))"
        by (intro updateLocal_applies [of E r _ "[''last_sync_at'' \<mapsto> VStr (clock E (tick w1))]"
              "advance w1" upd w2]) simp_all
      with Pair Inr ok show ?thesis
        by (simp add: push_item_def push_try_def getCurrentTimestamp_def)
    qed
  qed
qed

lemma env_up_simps [simp]:
  "clock env_up n = ''2024-05-01T10:07:00.000Z''"
  "uuid env_up n = ''6f1c2d3e-4a5b-4c6d-8e9f-000000000001''"
  "store_fault env_up n = None"
  "date_time env_up = iso_time"
  "fetch env_up n req = (if http_method req = ''GET'' then Response True ''OK'' (JArr [])
                         else Response True ''OK'' (JObj [''id'' \<mapsto> VStr ''r9'']))"
  by (simp_all add: env_up_def env0_def)

lemma env0_fetch [simp]:
  "fetch env0 n req = (if http_method req = ''GET'' then Response True ''OK'' (JArr [])
                       else Response False ''Service Unavailable'' JNull)"
  by (simp add: env0_def)

lemma initial_result_simps [simp]:
  "success initial_result" "conflicts initial_result = []" "updated initial_result = 0"
  "created initial_result = 0" "deleted initial_result = 0" "errors initial_result = []"
  by (simp_all add: initial_result_def)

lemma push_remote_created:
  "push_remote env_up todos row_a1 (world_a, initial_result)
     = (Inr (),
        world_a\<lparr>tables := (tables world_a)(''todos'' :=
                   [row_a1(''remote_id'' \<mapsto> VStr ''r9'',
                           ''updated_at'' \<mapsto> VStr ''2024-05-01T10:07:00.000Z'')]),
                tick := 5\<rparr>,
        initial_result\<lparr>created := 1\<rparr>)"
  by (simp add: push_remote_def saveRemote_def call_fetch_def payload_truthy_def payload_get_def
     updateLocal_eq live_rows_def not_deleted_def update_assigns_single advance_def)

theorem push_stamp_witness:
  "push_item env0 todos (synced_row ''2024-05-01T10:03:00.000Z'')
       (world_of [synced_row ''2024-05-01T10:03:00.000Z''], initial_result)
     = (advance (world_of [synced_row ''2024-05-01T10:03:00.000Z'']),
        initial_result\<lparr>errors :=
            [''Failed to sync item a1: Error: Remote update failed: Service Unavailable''],
          success := False\<rparr>)
   \<and> push_item env0 todos row_a1 (world_a, initial_result)
     = (advance world_a,
        initial_result\<lparr>errors :=
            [''Failed to sync item a1: Error: Remote save failed: Service Unavailable''],
          success := False\<rparr>)
   \<and> push_item env_fault1 todos row_a1 (world_a, initial_result)
     = (advance (advance world_a),
        initial_result\<lparr>errors := [''Failed to sync item a1: database is locked''],
          success := False\<rparr>)
   \<and> push_remote env_fault1 todos row_a1 (world_a, initial_result)
     = (Inl (StoreError ''database is locked''), advance (advance world_a), initial_result)
   \<and> snd (push_item env_up todos row_a1 (world_a, initial_result))
     = initial_result\<lparr>created := 1\<rparr>
   \<and> list_all (\<lambda>row. sql_eq (get row ''id'') (VStr ''a1'') \<longrightarrow>
                  get row ''last_sync_at'' = VStr ''2024-05-01T10:07:00.000Z'')
        (tables (fst (push_item env_up todos row_a1 (world_a, initial_result))) ''todos'')"
proof -
  let ?c = "synced_row ''2024-05-01T10:03:00.000Z''"
  let ?w1 = "world_a\<lparr>tables := (tables world_a)(''todos'' :=
                   [row_a1(''remote_id'' \<mapsto> VStr ''r9'',
                           ''updated_at'' \<mapsto> VStr ''2024-05-01T10:07:00.000Z'')]),
                tick := 5\<rparr>"
  have put: "updateRemote env0 todos (get ?c ''remote_id'') ?c (world_of [?c])
               = (Inl (RemoteRequestFailed ''update'' ''Service Unavailable''),
                  advance (world_of [?c]))"
    by (simp add: updateRemote_def call_fetch_def)
  have post: "saveRemote env0 todos row_a1 world_a
               = (Inl (RemoteRequestFailed ''save'' ''Service Unavailable''), advance world_a)"
    by (simp add: saveRemote_def call_fetch_def)
  have live: "live_rows (advance ?w1) todos (VStr ''a1'')
                = [row_a1(''remote_id'' \<mapsto> VStr ''r9'',
                          ''updated_at'' \<mapsto> VStr ''2024-05-01T10:07:00.000Z'')]"
    by (simp add: live_rows_def not_deleted_def)
  have "fst (updateLocal env_up todos (get row_a1 ''id'')
               [''last_sync_at'' \<mapsto> VStr (clock env_up (tick ?w1))] (advance ?w1))
          = Inr (((row_a1(''remote_id'' \<mapsto> VStr ''r9'',
                          ''updated_at'' \<mapsto> VStr ''2024-05-01T10:07:00.000Z''))
                    ++ [''last_sync_at'' \<mapsto> VStr ''2024-05-01T10:07:00.000Z''])
                  (''id'' \<mapsto> VStr ''a1'', ''updated_at'' \<mapsto> VStr ''2024-05-01T10:07:00.000Z''))"
    by (simp add: updateLocal_eq live)
  then obtain upd w2 where stamped:
    "updateLocal env_up todos (get row_a1 ''id'')
       [''last_sync_at'' \<mapsto> VStr (clock env_up (tick ?w1))] (advance ?w1) = (Inr upd, w2)"
    by (cases "updateLocal env_up todos (get row_a1 ''id'')
                 [''last_sync_at'' \<mapsto> VStr (clock env_up (tick ?w1))] (advance ?w1)") simp
  from push_stamp [where item = ?c and E = env0 and r = todos and w = "world_of [?c]"
      and e = "RemoteRequestFailed ''update'' ''Service Unavailable''"
      and ?w1.0 = "advance (world_of [?c])" and res = initial_result] put
  have a: "push_item env0 todos ?c (world_of [?c], initial_result)
     = (advance (world_of [?c]),
        initial_result\<lparr>errors :=
            [''Failed to sync item a1: Error: Remote update failed: Service Unavailable''],
          success := False\<rparr>)"
    by simp
  from push_stamp [where item = row_a1 and E = env0 and r = todos and w = world_a
      and e = "RemoteRequestFailed ''save'' ''Service Unavailable''"
      and ?w1.0 = "advance world_a" and res = initial_result] post
  have b: "push_item env0 todos row_a1 (world_a, initial_result)
     = (advance world_a,
        initial_result\<lparr>errors :=
            [''Failed to sync item a1: Error: Remote save failed: Service Unavailable''],
          success := False\<rparr>)"
    by simp
  from push_stamp [where item = row_a1 and E = env_up and r = todos and w = world_a
      and ?w1.0 = ?w1 and res = initial_result
      and ?res1.0 = "initial_result\<lparr>created := 1\<rparr>"]
    push_remote_created stamped
  have c: "push_item env_up todos row_a1 (world_a, initial_result) = (w2, initial_result\<lparr>created := 1\<rparr>)"
    and st: "list_all (\<lambda>row. sql_eq (get row ''id'') (VStr ''a1'') \<longrightarrow>
                     get row ''last_sync_at'' = VStr ''2024-05-01T10:07:00.000Z'')
           (tables w2 ''todos'')"
    by simp_all
  have created: "saveRemote env_fault1 todos row_a1 world_a
                   = (Inr (JObj [''id'' \<mapsto> VStr ''r9'']), advance world_a)"
    by (simp add: saveRemote_def call_fetch_def env_fault1_def)
  have locked: "updateLocal env_fault1 todos (get row_a1 ''id'')
                  [''remote_id'' \<mapsto> payload_get (JObj [''id'' \<mapsto> VStr ''r9'']) ''id'']
                  (advance world_a)
                = (Inl (StoreError ''database is locked''), advance (advance world_a))"
    by (simp add: updateLocal_eq env_fault1_def)
  have step: "push_remote env_fault1 todos row_a1 (world_a, initial_result)
     = (Inl (StoreError ''database is locked''), advance (advance world_a), initial_result)"
    using created locked by (simp add: push_remote_def payload_truthy_def)
  from push_stamp [where item = row_a1 and E = env_fault1 and r = todos and w = world_a
      and e = "StoreError ''database is locked''" and ?w1.0 = "advance (advance world_a)"
      and res = initial_result and remoteItem = "JObj [''id'' \<mapsto> VStr ''r9'']"
      and wa = "advance world_a"] created locked
  have d: "push_item env_fault1 todos row_a1 (world_a, initial_result)
     = (advance (advance world_a),
        initial_result\<lparr>errors := [''Failed to sync item a1: database is locked''],
          success := False\<rparr>)"
    by (simp add: payload_truthy_def)
  from push_stamp [where item = row_a1 and E = env_fault1 and r = todos and w = world_a
      and e = "StoreError ''database is locked''" and ?w1.0 = "advance (advance world_a)"
      and res = initial_result and ?res1.0 = initial_result] step
  have d': "push_item env_fault1 todos row_a1 (world_a, initial_result)
     = (advance (advance world_a),
        initial_result\<lparr>errors := [''Failed to sync item a1: database is locked''],
          success := False\<rparr>)"
    by simp
  from a b c st d d' step show ?thesis
    by simp
qed

text \<open>
  A whole pass over a store with one dirty record, against a service that refuses every
  write. With a \<^verbatim>\<open>remote_id\<close> (the remote update fails) and without one (the remote
  create fails), the record is left as it was: \<^verbatim>\<open>last_sync_at\<close> is not stamped.
\<close>

theorem push_failure_leaves_unstamped:
  "fst (syncWithRemote env0 todos (world_of [synced_row ''2024-05-01T10:03:00.000Z'']))
     = Inr \<lparr>success = False, conflicts = [], updated = 0, created = 0, deleted = 0,
            errors = [''Failed to sync item a1: Error: Remote update failed: Service Unavailable'']\<rparr>
   \<and> tables (snd (syncWithRemote env0 todos (world_of [synced_row ''2024-05-01T10:03:00.000Z''])))
        ''todos'' = [synced_row ''2024-05-01T10:03:00.000Z'']
   \<and> get (synced_row ''2024-05-01T10:03:00.000Z'') ''last_sync_at''
       = VStr ''2024-05-01T10:01:00.000Z''
   \<and> fst (syncWithRemote env0 todos world_a)
     = Inr \<lparr>success = False, conflicts = [], updated = 0, created = 0, deleted = 0,
            errors = [''Failed to sync item a1: Error: Remote save failed: Service Unavailable'']\<rparr>
   \<and> tables (snd (syncWithRemote env0 todos world_a)) ''todos'' = [row_a1]
   \<and> get row_a1 ''last_sync_at'' = VUndef"
  by (simp add: syncWithRemote_def sync_try_def getLocalChanges_def db_select_def sql_gt_def
        push_item_def push_try_def push_remote_def updateRemote_def saveRemote_def call_fetch_def
        getRemoteChanges_def listRemote_def initial_result_def)

subsection \<open>Write-backs to a soft-deleted record\<close>

lemma updateLocal_not_live:
  "store_fault E (tick w) = None \<Longrightarrow> live_rows w r i = [] \<Longrightarrow>
     updateLocal E r i data w = (Inl (NotFound i), advance w)"
  by (simp add: updateLocal_eq)

text \<open>
  C8. \<^verbatim>\<open>updateLocal\<close> finds only rows that are not soft-deleted. So when the rows with
  the id of a record are all soft-deleted and the store answers the SELECT, every
  write-back of a pass to that record raises NotFound and leaves the store as it was:
  \<^verbatim>\<open>updateLocal\<close> itself; the stamp of \<^verbatim>\<open>last_sync_at\<close> after a remote write that
  returned normally; the \<^verbatim>\<open>remote_id\<close> after a remote create; and the merge of a remote
  record that does not conflict. In a pass the error is recorded for the record and
  \<^verbatim>\<open>success\<close> becomes false.
\<close>

theorem soft_deleted_write_back:
  "(store_fault E (tick w) = None \<longrightarrow> live_rows w r i = [] \<longrightarrow>
      updateLocal E r i data w = (Inl (NotFound i), advance w)
      \<and> tables (advance w) = tables w)
   \<and> (push_remote E r item (w, res) = (Inr (), w1, res1) \<longrightarrow>
      store_fault E (Suc (tick w1)) = None \<longrightarrow> live_rows w1 r (get item ''id'') = [] \<longrightarrow>
        push_item E r item (w, res)
          = (advance (advance w1),
             res1\<lparr>errors := errors res1 @
                  [''Failed to sync item '' @ js_string (get item ''id'') @ '': ''
                     @ error_string (NotFound (get item ''id''))],
                success := False\<rparr>)
        \<and> tables (advance (advance w1)) = tables w1)
   \<and> (\<not> truthy (get item ''remote_id'') \<longrightarrow>
      saveRemote E r item w = (Inr remoteItem, w1) \<longrightarrow> payload_truthy remoteItem \<longrightarrow>
      store_fault E (tick w1) = None \<longrightarrow> live_rows w r (get item ''id'') = [] \<longrightarrow>
        push_item E r item (w, res)
          = (advance w1,
             res\<lparr>errors := errors res @
                  [''Failed to sync item '' @ js_string (get item ''id'') @ '': ''
                     @ error_string (NotFound (get item ''id''))],
                success := False\<rparr>)
        \<and> tables (advance w1) = tables w)
   \<and> (findLocalByRemoteId E r (get remoteItem' ''id'') w = (Inr (Some localItem), w1) \<longrightarrow>
      \<not> hasConflict E localItem remoteItem' \<longrightarrow>
      store_fault E (tick w1) = None \<longrightarrow> live_rows w r (get localItem ''id'') = [] \<longrightarrow>
        pull_item E r (Some remoteItem') (w, res)
          = (Inr (), advance w1,
             res\<lparr>errors := errors res @
                  [''Failed to merge remote item '' @ js_string (get remoteItem' ''id'') @ '': ''
                     @ error_string (NotFound (get localItem ''id''))],
                success := False\<rparr>)
        \<and> tables (advance w1) = tables w)"
proof (intro conjI impI)
  assume "store_fault E (tick w) = None" "live_rows w r i = []"
  then show "updateLocal E r i data w = (Inl (NotFound i), advance w)"
    by (rule updateLocal_not_live)
  show "tables (advance w) = tables w"
    by simp
next
  assume "push_remote E r item (w, res) = (Inr (), w1, res1)"
    and "store_fault E (Suc (tick w1)) = None" and "live_rows w1 r (get item ''id'') = []"
  then show "push_item E r item (w, res)
          = (advance (advance w1),
             res1\<lparr>errors := errors res1 @
                  [''Failed to sync item '' @ js_string (get item ''id'') @ '': ''
                     @ error_string (NotFound (get item ''id''))],
                success := False\<rparr>)"
    by (simp add: push_item_def push_try_def getCurrentTimestamp_def live_rows_def
          updateLocal_not_live [of E "advance w1" r])
  show "tables (advance (advance w1)) = tables w1"
    by simp
next
  assume a: "\<not> truthy (get item ''remote_id'')" "saveRemote E r item w = (Inr remoteItem, w1)"
    "payload_truthy remoteItem" "store_fault E (tick w1) = None"
    "live_rows w r (get item ''id'') = []"
  from a(2) have t: "tables w1 = tables w"
    by (rule saveRemote_tables)
  with a(5) have "live_rows w1 r (get item ''id'') = []"
    by (simp add: live_rows_def)
  with a show "push_item E r item (w, res)
          = (advance w1,
             res\<lparr>errors := errors res @
                  [''Failed to sync item '' @ js_string (get item ''id'') @ '': ''
                     @ error_string (NotFound (get item ''id''))],
                success := False\<rparr>)"
    by (simp add: push_item_def push_try_def push_remote_def updateLocal_not_live)
  from t show "tables (advance w1) = tables w"
    by simp
next
  assume a: "findLocalByRemoteId E r (get remoteItem' ''id'') w = (Inr (Some localItem), w1)"
    "\<not> hasConflict E localItem remoteItem'" "store_fault E (tick w1) = None"
    "live_rows w r (get localItem ''id'') = []"
  from a(1) have t: "tables w1 = tables w"
    by (rule findLocalByRemoteId_tables)
  with a(4) have "live_rows w1 r (get localItem ''id'') = []"
    by (simp add: live_rows_def)
  with a show "pull_item E r (Some remoteItem') (w, res)
          = (Inr (), advance w1,
             res\<lparr>errors := errors res @
                  [''Failed to merge remote item '' @ js_string (get remoteItem' ''id'') @ '': ''
                     @ error_string (NotFound (get localItem ''id''))],
                success := False\<rparr>)"
    by (simp add: pull_item_def pull_try_def updateLocal_not_live)
  from t show "tables (advance w1) = tables w"
    by simp
qed

lemma deleted_row_simps [simp]:
  "get deleted_row ''id'' = VStr ''a1''"
  "get deleted_row ''remote_id'' = VStr ''r9''"
  "get deleted_row ''updated_at'' = VStr ''2024-05-01T10:03:00.000Z''"
  "get deleted_row ''last_sync_at'' = VStr ''2024-05-01T10:01:00.000Z''"
  "get deleted_row ''is_deleted'' = VNum 1"
  "get deleted_new_row ''id'' = VStr ''a1''"
  "get deleted_new_row ''remote_id'' = VUndef"
  "get deleted_new_row ''last_sync_at'' = VUndef"
  "get deleted_new_row ''is_deleted'' = VNum 1"
  by (simp_all add: deleted_row_def deleted_new_row_def)

lemma sql_eq_num [simp]: "sql_eq (VNum a) (VNum b) = (a = b)"
  by (simp add: sql_eq_def)

theorem soft_deleted_write_back_witness:
  "updateLocal env0 todos (VStr ''a1'') [''title'' \<mapsto> VStr ''Z''] (world_of [deleted_row])
     = (Inl (NotFound (VStr ''a1'')), advance (world_of [deleted_row]))
   \<and> fst (getLocalChanges env_up todos (world_of [deleted_row])) = Inr [deleted_row]
   \<and> push_item env_up todos deleted_row (world_of [deleted_row], initial_result)
     = (advance (advance (advance (world_of [deleted_row]))),
        initial_result\<lparr>updated := 1,
          errors := [''Failed to sync item a1: Error: Record with id a1 not found''],
          success := False\<rparr>)
   \<and> push_item env_up todos deleted_new_row (world_of [deleted_new_row], initial_result)
     = (advance (advance (world_of [deleted_new_row])),
        initial_result\<lparr>
          errors := [''Failed to sync item a1: Error: Record with id a1 not found''],
          success := False\<rparr>)
   \<and> pull_item env0 todos (Some (remote_r9 ''2024-05-01T10:00:00.000Z''))
        (world_of [deleted_row], initial_result)
     = (Inr (), advance (advance (world_of [deleted_row])),
        initial_result\<lparr>
          errors := [''Failed to merge remote item r9: Error: Record with id a1 not found''],
          success := False\<rparr>)
   \<and> tables (advance (advance (advance (world_of [deleted_row])))) ''todos'' = [deleted_row]"
proof -
  let ?w = "world_of [deleted_row]"
  let ?v = "world_of [deleted_new_row]"
  let ?r0 = "remote_r9 ''2024-05-01T10:00:00.000Z''"
  have gone: "live_rows ?w todos (VStr ''a1'') = []"
    "live_rows (advance ?w) todos (VStr ''a1'') = []"
    "live_rows ?v todos (VStr ''a1'') = []"
    by (simp_all add: live_rows_def not_deleted_def)
  have dirty: "fst (getLocalChanges env_up todos ?w) = Inr [deleted_row]"
    by (simp add: getLocalChanges_def db_select_def sql_gt_def)
  have put: "push_remote env_up todos deleted_row (?w, initial_result)
               = (Inr (), advance ?w, initial_result\<lparr>updated := 1\<rparr>)"
    by (simp add: push_remote_def updateRemote_def call_fetch_def)
  have post: "saveRemote env_up todos deleted_new_row ?v
               = (Inr (JObj [''id'' \<mapsto> VStr ''r9'']), advance ?v)"
    by (simp add: saveRemote_def call_fetch_def)
  have found: "findLocalByRemoteId env0 todos (get ?r0 ''id'') ?w
                 = (Inr (Some deleted_row), advance ?w)"
    by (simp add: findLocalByRemoteId_eq)
  have quiet: "\<not> hasConflict env0 deleted_row ?r0"
    by (simp add: hasConflict_def)
  note wb = soft_deleted_write_back
  from wb [where E = env0 and w = ?w and r = todos and i = "VStr ''a1''"
      and data = "[''title'' \<mapsto> VStr ''Z'']"] gone
  have a: "updateLocal env0 todos (VStr ''a1'') [''title'' \<mapsto> VStr ''Z''] ?w
             = (Inl (NotFound (VStr ''a1'')), advance ?w)"
    by simp
  from wb [where E = env_up and w = ?w and r = todos and item = deleted_row
      and res = initial_result and ?w1.0 = "advance ?w"
      and ?res1.0 = "initial_result\<lparr>updated := 1\<rparr>"] put gone
  have b: "push_item env_up todos deleted_row (?w, initial_result)
     = (advance (advance (advance ?w)),
        initial_result\<lparr>updated := 1,
          errors := [''Failed to sync item a1: Error: Record with id a1 not found''],
          success := False\<rparr>)"
    by simp
  from wb [where E = env_up and w = ?v and r = todos and item = deleted_new_row
      and res = initial_result and ?w1.0 = "advance ?v"
      and remoteItem = "JObj [''id'' \<mapsto> VStr ''r9'']"] post gone
  have c: "push_item env_up todos deleted_new_row (?v, initial_result)
     = (advance (advance ?v),
        initial_result\<lparr>
          errors := [''Failed to sync item a1: Error: Record with id a1 not found''],
          success := False\<rparr>)"
    by (simp add: payload_truthy_def)
  from wb [where E = env0 and w = ?w and r = todos and res = initial_result
      and ?w1.0 = "advance ?w" and remoteItem' = ?r0 and localItem = deleted_row]
    found quiet gone
  have d: "pull_item env0 todos (Some ?r0) (?w, initial_result)
     = (Inr (), advance (advance ?w),
        initial_result\<lparr>
          errors := [''Failed to merge remote item r9: Error: Record with id a1 not found''],
          success := False\<rparr>)"
    by simp
  from a dirty b c d show ?thesis
    by simp
qed

subsection \<open>What a pass does to its result\<close>

lemma push_remote_result:
  "push_remote E r item (w, res) = (out, w1, res1) \<Longrightarrow>
     success res1 = success res \<and> errors res1 = errors res \<and> deleted res1 = deleted res
     \<and> conflicts res1 = conflicts res"
  by (auto simp: push_remote_def split: if_splits prod.splits sum.splits)

lemma push_try_result:
  "push_try E r item (w, res) = (out, w1, res1) \<Longrightarrow>
     success res1 = success res \<and> errors res1 = errors res \<and> deleted res1 = deleted res
     \<and> conflicts res1 = conflicts res"
  by (auto simp: push_try_def getCurrentTimestamp_def split: prod.splits sum.splits
        dest!: push_remote_result)

lemma pull_try_result:
  "pull_try E r entry (w, res) = (out, w1, res1) \<Longrightarrow>
     success res1 = success res \<and> errors res1 = errors res \<and> deleted res1 = deleted res
     \<and> (conflicts res1 = conflicts res
          \<or> (\<exists>c. conflicts res1 = conflicts res @ [c] \<and> conflict_type c = Update))"
  by (auto simp: pull_try_def generateId_def Let_def
        split: if_splits prod.splits sum.splits option.splits)

lemma push_item_sound:
  assumes "sound_result (snd s)"
  shows "sound_result (snd (push_item E r item s))"
proof -
  obtain w res where s: "s = (w, res)"
    by (cases s)
  obtain out w1 res1 where t: "push_try E r item (w, res) = (out, w1, res1)"
    by (cases "push_try E r item (w, res)")
  from push_try_result [OF t] assms s t show ?thesis
    by (cases out) (simp_all add: push_item_def sound_result_def)
qed

lemma pull_item_sound:
  assumes "sound_result (snd s)"
  shows "sound_result (snd (snd (pull_item E r entry s)))"
proof -
  obtain w res where s: "s = (w, res)"
    by (cases s)
  obtain out w1 res1 where t: "pull_try E r entry (w, res) = (out, w1, res1)"
    by (cases "pull_try E r entry (w, res)")
  from pull_try_result [OF t] assms s t show ?thesis
    by (cases out; cases entry) (auto simp: pull_item_def sound_result_def)
qed

lemma push_loop_sound:
  "sound_result (snd s) \<Longrightarrow> sound_result (snd (push_loop E r localChanges s))"
  by (induction localChanges arbitrary: s) (simp_all add: push_item_sound)

lemma pull_loop_sound:
  "sound_result (snd s) \<Longrightarrow> sound_result (snd (snd (pull_loop E r remoteChanges s)))"
proof (induction remoteChanges arbitrary: s)
  case Nil
  then show ?case
    by simp
next
  case (Cons entry remoteChanges)
  obtain out s1 where i: "pull_item E r entry s = (out, s1)"
    by (cases "pull_item E r entry s")
  from pull_item_sound [OF Cons.prems, of E r entry] i have "sound_result (snd s1)"
    by simp
  with Cons.IH [of s1] i show ?case
    by (cases out) simp_all
qed

lemma sync_try_sound:
  assumes "sync_try E r (w, res) = (out, w1, res1)" and "sound_result res"
  shows "sound_result res1"
proof (cases "getLocalChanges E r w")
  case (Pair got wa)
  show ?thesis
  proof (cases got)
    case (Inl e)
    with Pair assms show ?thesis
      by (simp add: sync_try_def)
  next
    case (Inr localChanges)
    obtain w2 res2 where p: "push_loop E r localChanges (wa, res) = (w2, res2)"
      by (cases "push_loop E r localChanges (wa, res)")
    from push_loop_sound [of "(wa, res)" E r localChanges] assms(2) p
    have s2: "sound_result res2"
      by simp
    obtain remoteChanges w3 where g: "getRemoteChanges E r w2 = (remoteChanges, w3)"
      by (cases "getRemoteChanges E r w2")
    show ?thesis
    proof (cases "\<exists>xs. remoteChanges = JArr xs")
      case True
      then obtain xs where "remoteChanges = JArr xs"
        by blast
      with Pair Inr p g assms(1) have "res1 = snd (snd (pull_loop E r xs (w3, res2)))"
        by (auto simp: sync_try_def)
      with pull_loop_sound [of "(w3, res2)" E r xs] s2 show ?thesis
        by simp
    next
      case False
      with Pair Inr p g assms(1) have "res1 = res2"
        by (cases remoteChanges) (auto simp: sync_try_def)
      with s2 show ?thesis
        by simp
    qed
  qed
qed

lemma initial_result_sound: "sound_result initial_result"
  by (simp add: sound_result_def initial_result_def)

lemma syncWithRemote_sound:
  assumes "syncWithRemote E r w = (out, w')"
  shows "\<exists>res. out = Inr res \<and> sound_result res"
proof (cases "\<exists>c. remoteConfig r = Some c \<and> enabled c \<and> contentSync (features c)")
  case False
  with assms show ?thesis
    by (auto simp: syncWithRemote_def sound_result_def not_enabled_result_def
          split: option.splits if_splits)
next
  case True
  then obtain c where c: "remoteConfig r = Some c" "enabled c" "contentSync (features c)"
    by blast
  obtain t w1 res1 where t: "sync_try E r (w, initial_result) = (t, w1, res1)"
    by (cases "sync_try E r (w, initial_result)")
  from sync_try_sound [OF t initial_result_sound] have "sound_result res1" .
  with assms c t show ?thesis
    by (cases t) (auto simp: syncWithRemote_def sound_result_def)
qed


text \<open>
  C9. Every result of \<^verbatim>\<open>syncWithRemote\<close> has \<^verbatim>\<open>deleted\<close> equal to 0, and every
  conflict in it has the type update.
\<close>

theorem sync_result_no_delete:
  assumes "syncWithRemote E r w = (Inr res, w')"
  shows "deleted res = 0 \<and> list_all (\<lambda>c. conflict_type c = Update) (conflicts res)"
  using syncWithRemote_sound [OF assms] by (simp add: sound_result_def)

lemma row_a2_simps [simp]:
  "get row_a2 ''id'' = VStr ''a2''"
  "get row_a2 ''remote_id'' = VUndef"
  "get row_a2 ''last_sync_at'' = VUndef"
  by (simp_all add: row_a2_def)

lemma env_locked_simps [simp]:
  "store_fault env_locked n = Some ''database is locked''"
  by (simp add: env_locked_def)

lemma env_refusing_simps [simp]:
  "clock env_refusing n = ''2024-05-01T10:07:00.000Z''"
  "store_fault env_refusing n = None"
  "date_time env_refusing = iso_time"
  "fetch env_refusing n req =
     (if http_method req = ''GET''
      then Response True ''OK'' (JArr [Some (remote_r9 ''2024-05-01T10:05:00.000Z'')])
      else Response False ''Service Unavailable'' JNull)"
  by (simp_all add: env_refusing_def env0_def)



theorem sync_result_no_delete_witness:
  "\<exists>res w'. syncWithRemote env_refusing todos (world_of [synced_row ''2024-05-01T10:03:00.000Z''])
               = (Inr res, w')
     \<and> errors res
         = [''Failed to sync item a1: Error: Remote update failed: Service Unavailable'']
     \<and> length (conflicts res) = 1
     \<and> deleted res = 0
     \<and> list_all (\<lambda>c. conflict_type c = Update) (conflicts res)"
proof -
  let ?c = "synced_row ''2024-05-01T10:03:00.000Z''"
  let ?res = "\<lparr>success = False,
       conflicts = [\<lparr>id' = VStr ''a1'', table = ''todos'', local_data = ?c,
                     remote_data = remote_r9 ''2024-05-01T10:05:00.000Z'',
                     conflict_type = Update\<rparr>],
       updated = 0, created = 0, deleted = 0,
       errors = [''Failed to sync item a1: Error: Remote update failed: Service Unavailable'']\<rparr>"
  have "fst (syncWithRemote env_refusing todos (world_of [?c])) = Inr ?res"
    by (simp add: syncWithRemote_def sync_try_def getLocalChanges_def db_select_def sql_gt_def
          push_item_def push_try_def push_remote_def updateRemote_def call_fetch_def
          getRemoteChanges_def listRemote_def pull_item_def pull_try_def findLocalByRemoteId_eq
          hasConflict_def initial_result_def)
  then obtain w' where run: "syncWithRemote env_refusing todos (world_of [?c]) = (Inr ?res, w')"
    by (cases "syncWithRemote env_refusing todos (world_of [?c])") simp
  from sync_result_no_delete [OF run] run show ?thesis
    by (intro exI [of _ ?res] exI [of _ w']) simp
qed

subsection \<open>syncAll\<close>

lemma syncWithRemote_returns:
  "\<exists>res w'. syncWithRemote E r w = (Inr res, w')"
proof -
  obtain out w' where o: "syncWithRemote E r w = (out, w')"
    by (cases "syncWithRemote E r w")
  from syncWithRemote_sound [OF o] o show ?thesis
    by auto
qed

text \<open>
  C6. \<^verbatim>\<open>syncAll\<close> runs the passes only inside the gate: when the manager's remote
  configuration is enabled and has \<^verbatim>\<open>contentSync\<close> on, it synchronises the users
  repository and then, from the world that pass left, the todos repository (each if it
  is registered), and returns their results under the names \<^verbatim>\<open>users\<close> and
  \<^verbatim>\<open>todos\<close>. Outside the gate it returns the empty map and leaves the world
  untouched; so it does after \<^verbatim>\<open>setRemoteConfig\<close> with \<^verbatim>\<open>enabled: false\<close>, whatever
  the manager was before.
\<close>

theorem syncAll_gate:
  "((\<exists>c. remoteConfig' M = Some c \<and> enabled c \<and> contentSync (features c)) \<longrightarrow>
      userRepo M = Some ur \<longrightarrow> todoRepo M = Some tr \<longrightarrow>
        (\<exists>ru w1 rt w2. syncWithRemote E ur w = (Inr ru, w1)
            \<and> syncWithRemote E tr w1 = (Inr rt, w2)
            \<and> syncAll E M w = (Inr [''users'' \<mapsto> ru, ''todos'' \<mapsto> rt], w2)))
   \<and> ((\<exists>c. remoteConfig' M = Some c \<and> enabled c \<and> contentSync (features c)) \<longrightarrow>
      userRepo M = Some ur \<longrightarrow> todoRepo M = None \<longrightarrow>
        (\<exists>ru w1. syncWithRemote E ur w = (Inr ru, w1)
            \<and> syncAll E M w = (Inr [''users'' \<mapsto> ru], w1)))
   \<and> ((\<exists>c. remoteConfig' M = Some c \<and> enabled c \<and> contentSync (features c)) \<longrightarrow>
      userRepo M = None \<longrightarrow> todoRepo M = Some tr \<longrightarrow>
        (\<exists>rt w2. syncWithRemote E tr w = (Inr rt, w2)
            \<and> syncAll E M w = (Inr [''todos'' \<mapsto> rt], w2)))
   \<and> ((\<exists>c. remoteConfig' M = Some c \<and> enabled c \<and> contentSync (features c)) \<longrightarrow>
      userRepo M = None \<longrightarrow> todoRepo M = None \<longrightarrow> syncAll E M w = (Inr Map.empty, w))
   \<and> (\<not> (\<exists>c. remoteConfig' M = Some c \<and> enabled c \<and> contentSync (features c)) \<longrightarrow>
        syncAll E M w = (Inr Map.empty, w))
   \<and> (\<not> enabled config \<longrightarrow>
        syncAll E (fst (setRemoteConfig E config (M, w0))) w = (Inr Map.empty, w))"
proof (intro conjI impI)
  assume g: "\<exists>c. remoteConfig' M = Some c \<and> enabled c \<and> contentSync (features c)"
    and u: "userRepo M = Some ur" and t: "todoRepo M = Some tr"
  obtain ru w1 where 1: "syncWithRemote E ur w = (Inr ru, w1)"
    using syncWithRemote_returns by blast
  obtain rt w2 where 2: "syncWithRemote E tr w1 = (Inr rt, w2)"
    using syncWithRemote_returns by blast
  from g u t 1 2 have "syncAll E M w = (Inr [''users'' \<mapsto> ru, ''todos'' \<mapsto> rt], w2)"
    by (auto simp: syncAll_def)
  with 1 2 show "\<exists>ru w1 rt w2. syncWithRemote E ur w = (Inr ru, w1)
            \<and> syncWithRemote E tr w1 = (Inr rt, w2)
            \<and> syncAll E M w = (Inr [''users'' \<mapsto> ru, ''todos'' \<mapsto> rt], w2)"
    by blast
next
  assume g: "\<exists>c. remoteConfig' M = Some c \<and> enabled c \<and> contentSync (features c)"
    and u: "userRepo M = Some ur" and t: "todoRepo M = None"
  obtain ru w1 where 1: "syncWithRemote E ur w = (Inr ru, w1)"
    using syncWithRemote_returns by blast
  with g u t have "syncAll E M w = (Inr [''users'' \<mapsto> ru], w1)"
    by (auto simp: syncAll_def)
  with 1 show "\<exists>ru w1. syncWithRemote E ur w = (Inr ru, w1)
            \<and> syncAll E M w = (Inr [''users'' \<mapsto> ru], w1)"
    by blast
next
  assume g: "\<exists>c. remoteConfig' M = Some c \<and> enabled c \<and> contentSync (features c)"
    and u: "userRepo M = None" and t: "todoRepo M = Some tr"
  obtain rt w2 where 2: "syncWithRemote E tr w = (Inr rt, w2)"
    using syncWithRemote_returns by blast
  with g u t have "syncAll E M w = (Inr [''todos'' \<mapsto> rt], w2)"
    by (auto simp: syncAll_def)
  with 2 show "\<exists>rt w2. syncWithRemote E tr w = (Inr rt, w2)
            \<and> syncAll E M w = (Inr [''todos'' \<mapsto> rt], w2)"
    by blast
next
  assume "\<exists>c. remoteConfig' M = Some c \<and> enabled c \<and> contentSync (features c)"
    and "userRepo M = None" and "todoRepo M = None"
  then show "syncAll E M w = (Inr Map.empty, w)"
    by (auto simp: syncAll_def)
next
  assume "\<not> (\<exists>c. remoteConfig' M = Some c \<and> enabled c \<and> contentSync (features c))"
  then show "syncAll E M w = (Inr Map.empty, w)"
    by (auto simp: syncAll_def split: option.splits)
next
  assume "\<not> enabled config"
  then show "syncAll E (fst (setRemoteConfig E config (M, w0))) w = (Inr Map.empty, w)"
    by (simp add: syncAll_def setRemoteConfig_def Let_def)
qed

lemma manager0_simps [simp]:
  "remoteConfig' manager0 = Some config_on"
  "userRepo manager0 = Some users"
  "todoRepo manager0 = Some todos"
  "db manager0 = Some ()"
  by (simp_all add: manager0_def)

lemma users_simps [simp]:
  "tableName users = ''users''"
  "remoteConfig users = Some config_on"
  by (simp_all add: users_def)

lemma world_a_users [simp]: "tables world_a ''users'' = []"
  by (simp add: world_a_def)

theorem syncAll_gate_witness:
  "(\<exists>ru w1 rt w2. syncWithRemote env0 users world_a = (Inr ru, w1)
       \<and> syncWithRemote env0 todos w1 = (Inr rt, w2)
       \<and> syncAll env0 manager0 world_a = (Inr [''users'' \<mapsto> ru, ''todos'' \<mapsto> rt], w2)
       \<and> ru = initial_result)
   \<and> (\<exists>ru w1. syncWithRemote env0 users world_a = (Inr ru, w1)
       \<and> syncAll env0 (manager0\<lparr>todoRepo := None\<rparr>) world_a = (Inr [''users'' \<mapsto> ru], w1))
   \<and> (\<exists>rt w2. syncWithRemote env0 todos world_a = (Inr rt, w2)
       \<and> syncAll env0 (manager0\<lparr>userRepo := None\<rparr>) world_a = (Inr [''todos'' \<mapsto> rt], w2))
   \<and> syncAll env0 (manager0\<lparr>userRepo := None, todoRepo := None\<rparr>) world_a
       = (Inr Map.empty, world_a)
   \<and> syncAll env0 (manager0\<lparr>remoteConfig' := None\<rparr>) world_a = (Inr Map.empty, world_a)
   \<and> \<not> enabled config_off
   \<and> syncAll env0 (fst (setRemoteConfig env0 config_off (manager0, world_a)))
        (snd (setRemoteConfig env0 config_off (manager0, world_a)))
       = (Inr Map.empty, snd (setRemoteConfig env0 config_off (manager0, world_a)))"
proof -
  note g = syncAll_gate
  have off: "\<not> enabled config_off"
    by (simp add: config_off_def)
  have "fst (syncWithRemote env0 users world_a) = Inr initial_result"
    by (simp add: syncWithRemote_def sync_try_def getLocalChanges_def db_select_def
          getRemoteChanges_def listRemote_def call_fetch_def)
  then have first: "\<And>ru w1. syncWithRemote env0 users world_a = (Inr ru, w1) \<Longrightarrow>
                      ru = initial_result"
    by simp
  from g [where E = env0 and M = manager0 and w = world_a and ur = users and tr = todos
      and config = config_on and ?w0.0 = world_a]
  have "\<exists>ru w1 rt w2. syncWithRemote env0 users world_a = (Inr ru, w1)
       \<and> syncWithRemote env0 todos w1 = (Inr rt, w2)
       \<and> syncAll env0 manager0 world_a = (Inr [''users'' \<mapsto> ru, ''todos'' \<mapsto> rt], w2)"
    by simp
  then obtain ru w1 rt w2 where run: "syncWithRemote env0 users world_a = (Inr ru, w1)"
    "syncWithRemote env0 todos w1 = (Inr rt, w2)"
    "syncAll env0 manager0 world_a = (Inr [''users'' \<mapsto> ru, ''todos'' \<mapsto> rt], w2)"
    by blast
  from run first [OF run(1)]
  have a: "\<exists>ru w1 rt w2. syncWithRemote env0 users world_a = (Inr ru, w1)
       \<and> syncWithRemote env0 todos w1 = (Inr rt, w2)
       \<and> syncAll env0 manager0 world_a = (Inr [''users'' \<mapsto> ru, ''todos'' \<mapsto> rt], w2)
       \<and> ru = initial_result"
    by blast
  from g [where E = env0 and M = "manager0\<lparr>remoteConfig' := None\<rparr>" and w = world_a]
  have b: "syncAll env0 (manager0\<lparr>remoteConfig' := None\<rparr>) world_a = (Inr Map.empty, world_a)"
    by simp
  from g [where E = env0 and M = manager0 and ?w0.0 = world_a and config = config_off
      and w = "snd (setRemoteConfig env0 config_off (manager0, world_a))"] off
  have c: "syncAll env0 (fst (setRemoteConfig env0 config_off (manager0, world_a)))
        (snd (setRemoteConfig env0 config_off (manager0, world_a)))
       = (Inr Map.empty, snd (setRemoteConfig env0 config_off (manager0, world_a)))"
    by simp
  from g [where E = env0 and M = "manager0\<lparr>todoRepo := None\<rparr>" and w = world_a and ur = users]
  have p: "\<exists>ru w1. syncWithRemote env0 users world_a = (Inr ru, w1)
       \<and> syncAll env0 (manager0\<lparr>todoRepo := None\<rparr>) world_a = (Inr [''users'' \<mapsto> ru], w1)"
    by simp
  from g [where E = env0 and M = "manager0\<lparr>userRepo := None\<rparr>" and w = world_a and tr = todos]
  have q: "\<exists>rt w2. syncWithRemote env0 todos world_a = (Inr rt, w2)
       \<and> syncAll env0 (manager0\<lparr>userRepo := None\<rparr>) world_a = (Inr [''todos'' \<mapsto> rt], w2)"
    by simp
  from g [where E = env0 and M = "manager0\<lparr>userRepo := None, todoRepo := None\<rparr>"
      and w = world_a]
  have n: "syncAll env0 (manager0\<lparr>userRepo := None, todoRepo := None\<rparr>) world_a
       = (Inr Map.empty, world_a)"
    by simp
  from a p q n b off c show ?thesis
    by blast
qed

end
